theory Spec2Isabelle
  imports Complex_Main "HOL-Library.Word"
begin

section \<open>Event schema (package models)\<close>

text \<open>
  Go strings are byte strings (\<open>string\<close>), \<open>time.Time\<close> values are instants on a line
  (\<open>int\<close>), \<open>float64\<close> amounts decoded from JSON are finite and carried as rationals,
  and the Go \<open>int\<close> of the quantity fields is a 64-bit two's complement word (the
  size of \<open>int\<close> on the 64-bit platforms the services are built for).
  The embedded \<open>BaseEvent\<close> of every event struct is a record extension. Field names
  that occur in several Go structs carry a prefix for their struct:
  \<open>uc_\<close> UserCreated, \<open>it_\<close> OrderItem, \<open>op_\<close> OrderPlaced, \<open>ps_\<close> PaymentSettled,
  \<open>ia_\<close> InventoryAdjusted, \<open>dq_\<close> DLQEntry.
\<close>

type_synonym time = int
type_synonym float64 = rat

definition UserCreatedEvent :: string where
  "UserCreatedEvent = ''UserCreated''"

definition OrderPlacedEvent :: string where
  "OrderPlacedEvent = ''OrderPlaced''"

definition PaymentSettledEvent :: string where
  "PaymentSettledEvent = ''PaymentSettled''"

definition InventoryAdjustedEvent :: string where
  "InventoryAdjustedEvent = ''InventoryAdjusted''"

record BaseEvent =
  EventID :: string
  EventType :: string
  Timestamp :: time

record UserCreated = BaseEvent +
  uc_UserID :: string
  uc_Email :: string
  uc_FirstName :: string
  uc_LastName :: string
  uc_CreatedAt :: time

record OrderItem =
  it_SKU :: string
  it_Quantity :: "64 word"
  it_Price :: float64

record OrderPlaced = BaseEvent +
  op_OrderID :: string
  op_UserID :: string
  op_TotalAmount :: float64
  op_Currency :: string
  op_Items :: "OrderItem list"
  op_PlacedAt :: time

record PaymentSettled = BaseEvent +
  ps_PaymentID :: string
  ps_OrderID :: string
  ps_Amount :: float64
  ps_Currency :: string
  ps_PaymentMethod :: string
  ps_Status :: string
  ps_SettledAt :: time

record InventoryAdjusted = BaseEvent +
  ia_SKU :: string
  ia_Quantity :: "64 word"
  ia_AdjustmentType :: string
  ia_Reason :: string
  ia_AdjustedAt :: time

record DLQEntry =
  dq_EventID :: string
  dq_OriginalData :: string
  dq_Error :: string
  dq_Timestamp :: time
  dq_RetryCount :: int

section \<open>Relational store (schema.sql)\<close>

text \<open>
  A table is the list of its rows, in insertion order. Column names carry the table
  name. String comparison is exact.
  The surrogate key \<open>id INT IDENTITY\<close> of \<open>order_items\<close> is read by no query of the
  program and is left out: line items are told apart by their position in the table.
\<close>

record users_row =
  users_user_id :: string
  users_email :: string
  users_first_name :: string
  users_last_name :: string
  users_created_at :: time
  users_updated_at :: time

record orders_row =
  orders_order_id :: string
  orders_user_id :: string
  orders_total_amount :: float64
  orders_currency :: string
  orders_placed_at :: time
  orders_updated_at :: time

record order_items_row =
  items_order_id :: string
  items_sku :: string
  items_quantity :: int
  items_price :: float64

record payments_row =
  payments_payment_id :: string
  payments_order_id :: string
  payments_amount :: float64
  payments_currency :: string
  payments_payment_method :: string
  payments_status :: string
  payments_settled_at :: time
  payments_updated_at :: time

record inventory_row =
  inventory_sku :: string
  inventory_quantity :: int
  inventory_updated_at :: time

record db =
  users :: "users_row list"
  orders :: "orders_row list"
  order_items :: "order_items_row list"
  payments :: "payments_row list"
  inventory :: "inventory_row list"

text \<open>The errors the store reports for a statement that breaks the schema.\<close>

definition err_truncated :: string where
  "err_truncated = ''String or binary data would be truncated''"

definition err_unique :: string where
  "err_unique = ''Violation of UNIQUE KEY constraint''"

definition err_foreign_key :: string where
  "err_foreign_key = ''The statement conflicted with the FOREIGN KEY constraint''"

definition err_overflow :: string where
  "err_overflow = ''Arithmetic overflow error converting expression to data type int''"

definition err_overflow_numeric :: string where
  "err_overflow_numeric = ''Arithmetic overflow error converting float to data type numeric''"

definition fits_int32 :: "int \<Rightarrow> bool" where
  "fits_int32 n = (- (2 ^ 31) \<le> n \<and> n < 2 ^ 31)"

text \<open>
  The amount columns are \<open>DECIMAL(10, 2)\<close> and receive a \<open>float64\<close> parameter. The
  store converts the parameter to the column's scale by rounding it to the nearest
  hundredth (a tie away from zero): \<open>to_decimal_2\<close> is the value the column then
  holds. A rounded value of more than ten digits, that is of magnitude \<open>10^8\<close> or
  more, is an arithmetic overflow error of the statement.
\<close>

definition round_half_away :: "rat \<Rightarrow> int" where
  "round_half_away x = (if 0 \<le> x then \<lfloor>x + 1 / 2\<rfloor> else - \<lfloor>- x + 1 / 2\<rfloor>)"

definition to_decimal_2 :: "float64 \<Rightarrow> rat" where
  "to_decimal_2 x = of_int (round_half_away (x * 100)) / 100"

definition fits_decimal_10_2 :: "float64 \<Rightarrow> bool" where
  "fits_decimal_10_2 x = (\<bar>round_half_away (x * 100)\<bar> < 10 ^ 10)"

subsection \<open>MERGE INTO users\<close>

text \<open>
  \<open>users_violation\<close>: \<open>VARCHAR(36)\<close> user id, \<open>VARCHAR(255)\<close> unique email,
  \<open>VARCHAR(100)\<close> names. \<open>merge_users\<close>: the matched branch sets email, first name,
  last name and \<open>updated_at\<close> (\<open>@p5\<close>, the clock); the unmatched branch inserts the
  full row with \<open>created_at = @p6\<close>, the event's creation time.
\<close>

definition users_violation :: "UserCreated \<Rightarrow> users_row list \<Rightarrow> string option" where
  "users_violation ev tbl =
     (if 36 < length (uc_UserID ev) \<or> 255 < length (uc_Email ev)
         \<or> 100 < length (uc_FirstName ev) \<or> 100 < length (uc_LastName ev)
      then Some err_truncated
      else if uc_Email ev \<in> set (map users_email
                (filter (\<lambda>r. users_user_id r \<noteq> uc_UserID ev) tbl))
      then Some err_unique
      else None)"

definition merge_users :: "time \<Rightarrow> UserCreated \<Rightarrow> users_row list \<Rightarrow> users_row list" where
  "merge_users now ev tbl =
     (if uc_UserID ev \<in> set (map users_user_id tbl)
      then map (\<lambda>r. if users_user_id r = uc_UserID ev
                     then r\<lparr>users_email := uc_Email ev, users_first_name := uc_FirstName ev,
                            users_last_name := uc_LastName ev, users_updated_at := now\<rparr>
                     else r) tbl
      else tbl @ [\<lparr>users_user_id = uc_UserID ev, users_email = uc_Email ev,
                    users_first_name = uc_FirstName ev, users_last_name = uc_LastName ev,
                    users_created_at = uc_CreatedAt ev, users_updated_at = now\<rparr>])"

definition exec_merge_users ::
  "string option \<Rightarrow> time \<Rightarrow> UserCreated \<Rightarrow> db \<Rightarrow> string + db" where
  "exec_merge_users fault now ev d =
     (case fault of
        Some e \<Rightarrow> Inl e
      | None \<Rightarrow>
          (case users_violation ev (users d) of
             Some e \<Rightarrow> Inl e
           | None \<Rightarrow> Inr (d\<lparr>users := merge_users now ev (users d)\<rparr>)))"

subsection \<open>MERGE INTO orders, DELETE FROM and INSERT INTO order_items\<close>

text \<open>
  The matched branch of the orders MERGE sets user id, total amount, currency and
  \<open>updated_at\<close>; \<open>placed_at\<close> is written by the unmatched branch only.
  \<open>orders.user_id\<close> references \<open>users\<close>, \<open>order_items.order_id\<close> references \<open>orders\<close>,
  and \<open>order_items.quantity\<close> is a 32-bit \<open>INT\<close> that receives a 64-bit parameter.
  \<open>orders.total_amount\<close> and \<open>order_items.price\<close> are \<open>DECIMAL(10, 2)\<close>.
\<close>

definition orders_violation :: "OrderPlaced \<Rightarrow> db \<Rightarrow> string option" where
  "orders_violation ev d =
     (if 36 < length (op_OrderID ev) \<or> 36 < length (op_UserID ev)
         \<or> 3 < length (op_Currency ev)
      then Some err_truncated
      else if \<not> fits_decimal_10_2 (op_TotalAmount ev) then Some err_overflow_numeric
      else if op_UserID ev \<notin> set (map users_user_id (users d))
      then Some err_foreign_key
      else None)"

definition merge_orders :: "time \<Rightarrow> OrderPlaced \<Rightarrow> orders_row list \<Rightarrow> orders_row list" where
  "merge_orders now ev tbl =
     (if op_OrderID ev \<in> set (map orders_order_id tbl)
      then map (\<lambda>r. if orders_order_id r = op_OrderID ev
                     then r\<lparr>orders_user_id := op_UserID ev,
                            orders_total_amount := to_decimal_2 (op_TotalAmount ev),
                            orders_currency := op_Currency ev, orders_updated_at := now\<rparr>
                     else r) tbl
      else tbl @ [\<lparr>orders_order_id = op_OrderID ev, orders_user_id = op_UserID ev,
                    orders_total_amount = to_decimal_2 (op_TotalAmount ev),
                    orders_currency = op_Currency ev,
                    orders_placed_at = op_PlacedAt ev, orders_updated_at = now\<rparr>])"

definition exec_merge_orders ::
  "string option \<Rightarrow> time \<Rightarrow> OrderPlaced \<Rightarrow> db \<Rightarrow> string + db" where
  "exec_merge_orders fault now ev d =
     (case fault of
        Some e \<Rightarrow> Inl e
      | None \<Rightarrow>
          (case orders_violation ev d of
             Some e \<Rightarrow> Inl e
           | None \<Rightarrow> Inr (d\<lparr>orders := merge_orders now ev (orders d)\<rparr>)))"

definition exec_delete_order_items :: "string option \<Rightarrow> string \<Rightarrow> db \<Rightarrow> string + db" where
  "exec_delete_order_items fault oid d =
     (case fault of
        Some e \<Rightarrow> Inl e
      | None \<Rightarrow> Inr (d\<lparr>order_items := filter (\<lambda>r. items_order_id r \<noteq> oid) (order_items d)\<rparr>))"

definition order_items_violation :: "string \<Rightarrow> OrderItem \<Rightarrow> db \<Rightarrow> string option" where
  "order_items_violation oid item d =
     (if 36 < length oid \<or> 50 < length (it_SKU item) then Some err_truncated
      else if \<not> fits_int32 (sint (it_Quantity item)) then Some err_overflow
      else if \<not> fits_decimal_10_2 (it_Price item) then Some err_overflow_numeric
      else if oid \<notin> set (map orders_order_id (orders d)) then Some err_foreign_key
      else None)"

definition exec_insert_order_item ::
  "string option \<Rightarrow> string \<Rightarrow> OrderItem \<Rightarrow> db \<Rightarrow> string + db" where
  "exec_insert_order_item fault oid item d =
     (case fault of
        Some e \<Rightarrow> Inl e
      | None \<Rightarrow>
          (case order_items_violation oid item d of
             Some e \<Rightarrow> Inl e
           | None \<Rightarrow>
               Inr (d\<lparr>order_items := order_items d @
                      [\<lparr>items_order_id = oid, items_sku = it_SKU item,
                        items_quantity = sint (it_Quantity item),
                        items_price = to_decimal_2 (it_Price item)\<rparr>]\<rparr>)))"

subsection \<open>MERGE INTO payments\<close>

text \<open>
  The matched branch sets every column but the key; \<open>order_id\<close> references \<open>orders\<close>;
  \<open>amount\<close> is \<open>DECIMAL(10, 2)\<close>.
\<close>

definition payments_violation :: "PaymentSettled \<Rightarrow> db \<Rightarrow> string option" where
  "payments_violation ev d =
     (if 36 < length (ps_PaymentID ev) \<or> 36 < length (ps_OrderID ev)
         \<or> 3 < length (ps_Currency ev) \<or> 50 < length (ps_PaymentMethod ev)
         \<or> 20 < length (ps_Status ev)
      then Some err_truncated
      else if \<not> fits_decimal_10_2 (ps_Amount ev) then Some err_overflow_numeric
      else if ps_OrderID ev \<notin> set (map orders_order_id (orders d))
      then Some err_foreign_key
      else None)"

definition payment_of :: "time \<Rightarrow> PaymentSettled \<Rightarrow> payments_row" where
  "payment_of now ev =
     \<lparr>payments_payment_id = ps_PaymentID ev, payments_order_id = ps_OrderID ev,
      payments_amount = to_decimal_2 (ps_Amount ev), payments_currency = ps_Currency ev,
      payments_payment_method = ps_PaymentMethod ev, payments_status = ps_Status ev,
      payments_settled_at = ps_SettledAt ev, payments_updated_at = now\<rparr>"

definition merge_payments ::
  "time \<Rightarrow> PaymentSettled \<Rightarrow> payments_row list \<Rightarrow> payments_row list" where
  "merge_payments now ev tbl =
     (if ps_PaymentID ev \<in> set (map payments_payment_id tbl)
      then map (\<lambda>r. if payments_payment_id r = ps_PaymentID ev
                     then r\<lparr>payments_order_id := ps_OrderID ev,
                            payments_amount := to_decimal_2 (ps_Amount ev),
                            payments_currency := ps_Currency ev,
                            payments_payment_method := ps_PaymentMethod ev,
                            payments_status := ps_Status ev,
                            payments_settled_at := ps_SettledAt ev,
                            payments_updated_at := now\<rparr>
                     else r) tbl
      else tbl @ [payment_of now ev])"

definition exec_merge_payments ::
  "string option \<Rightarrow> time \<Rightarrow> PaymentSettled \<Rightarrow> db \<Rightarrow> string + db" where
  "exec_merge_payments fault now ev d =
     (case fault of
        Some e \<Rightarrow> Inl e
      | None \<Rightarrow>
          (case payments_violation ev d of
             Some e \<Rightarrow> Inl e
           | None \<Rightarrow> Inr (d\<lparr>payments := merge_payments now ev (payments d)\<rparr>)))"

subsection \<open>MERGE INTO inventory\<close>

text \<open>
  The matched branch sets \<open>quantity = target.quantity + @p2\<close> and \<open>updated_at\<close>; the
  unmatched branch inserts \<open>@p2\<close>. The column is a 32-bit \<open>INT\<close>: a value outside its
  range is an arithmetic overflow error of the statement.
\<close>

definition inventory_violation :: "string \<Rightarrow> int \<Rightarrow> inventory_row list \<Rightarrow> string option" where
  "inventory_violation sku delta tbl =
     (if 50 < length sku then Some err_truncated
      else if sku \<in> set (map inventory_sku tbl)
      then (if list_all (\<lambda>r. fits_int32 (inventory_quantity r + delta))
                 (filter (\<lambda>r. inventory_sku r = sku) tbl)
            then None else Some err_overflow)
      else (if fits_int32 delta then None else Some err_overflow))"

definition merge_inventory ::
  "time \<Rightarrow> string \<Rightarrow> int \<Rightarrow> inventory_row list \<Rightarrow> inventory_row list" where
  "merge_inventory now sku delta tbl =
     (if sku \<in> set (map inventory_sku tbl)
      then map (\<lambda>r. if inventory_sku r = sku
                     then r\<lparr>inventory_quantity := inventory_quantity r + delta,
                            inventory_updated_at := now\<rparr>
                     else r) tbl
      else tbl @ [\<lparr>inventory_sku = sku, inventory_quantity = delta,
                    inventory_updated_at = now\<rparr>])"

definition exec_merge_inventory ::
  "string option \<Rightarrow> time \<Rightarrow> string \<Rightarrow> int \<Rightarrow> db \<Rightarrow> string + db" where
  "exec_merge_inventory fault now sku delta d =
     (case fault of
        Some e \<Rightarrow> Inl e
      | None \<Rightarrow>
          (case inventory_violation sku delta (inventory d) of
             Some e \<Rightarrow> Inl e
           | None \<Rightarrow> Inr (d\<lparr>inventory := merge_inventory now sku delta (inventory d)\<rparr>)))"

section \<open>The process state and its environment\<close>

text \<open>
  \<open>world\<close> is everything the consumer process reads and writes: the relational store,
  the Redis list of the dead-letter queue, the Prometheus collectors of package
  metrics (a counter is its value, a histogram the number of its observations, a
  gauge child is absent until it is first set), the \<open>processedCount\<close> map of
  \<open>Start\<close>, the offsets committed to the broker, and the journal \<open>calls\<close> of the
  calls made to the three collaborators (persistence gateway, dead-letter queue,
  broker commit) in the order they were made. \<open>topic\<close> is the subscribed topic as the
  broker holds it, the bodies of each partition in offset order, and \<open>position\<close> is
  the offset in each partition that the consumer handle of this process reads next.
  Log output is not modelled.

  \<open>env\<close> is what the outside decides while one message is handled: the readings of
  \<open>time.Now()\<close> in the gateway and in \<open>Push\<close>, and whether a call fails. \<open>db_fault k\<close>
  is the failure, if any, of the \<open>k\<close>-th round trip of a gateway operation to the
  store (connection loss, an expired deadline, any error the schema checks above
  do not cover). A call that fails has no effect on its collaborator: a statement or
  a transaction commit that reports an error has persisted nothing, a failed push
  has appended nothing, a failed offset commit has committed nothing.

  The counters and the rolling counts are unbounded numbers: the wrap-around of a
  Go \<open>int\<close> count and the rounding of a \<open>float64\<close> counter are out of reach of the
  number of messages a process handles.
\<close>

datatype call =
  GatewayCall string
  | SinkPush string string string
  | OffsetCommit nat nat

record world =
  store :: db
  sink :: "DLQEntry list"
  MessagesProcessed :: "string \<times> string \<Rightarrow> nat"
  MessagesProcessedPerSecond :: "string \<Rightarrow> int option"
  DLQCount :: nat
  DBLatency :: "string \<Rightarrow> nat"
  KafkaConsumeLatency :: nat
  processedCount :: "string \<Rightarrow> int option"
  committed :: "nat \<Rightarrow> nat option"
  calls :: "call list"
  topic :: "nat \<Rightarrow> string list"
  position :: "nat \<Rightarrow> nat"

record env =
  db_clock :: time
  db_fault :: "nat \<Rightarrow> string option"
  dlq_clock :: time
  dlq_marshal_fault :: "string option"
  dlq_fault :: "string option"
  commit_fault :: "string option"

record Message =
  msg_Value :: string
  msg_Partition :: nat
  msg_Offset :: nat

section \<open>Persistence gateway (internal/database/database.go)\<close>

text \<open>
  Every operation returns the Go \<open>error\<close> (\<open>None\<close> is \<open>nil\<close>) and the new state. The
  deferred \<open>metrics.DBLatency...Observe\<close> runs on every return path.
\<close>

definition gateway_enter :: "string \<Rightarrow> world \<Rightarrow> world" where
  "gateway_enter name w = w\<lparr>calls := calls w @ [GatewayCall name]\<rparr>"

definition observe_db :: "string \<Rightarrow> string option \<times> world \<Rightarrow> string option \<times> world" where
  "observe_db label r =
     (fst r, (snd r)\<lparr>DBLatency := (DBLatency (snd r))(label := Suc (DBLatency (snd r) label))\<rparr>)"

definition UpsertUser :: "env \<Rightarrow> UserCreated \<Rightarrow> world \<Rightarrow> string option \<times> world" where
  "UpsertUser e event w =
     observe_db ''upsert_user''
       (let w0 = gateway_enter ''UpsertUser'' w in
        case exec_merge_users (db_fault e 0) (db_clock e) event (store w0) of
          Inl err \<Rightarrow> (Some (''failed to upsert user: '' @ err), w0)
        | Inr d \<Rightarrow> (None, w0\<lparr>store := d\<rparr>))"

text \<open>
  \<open>UpsertOrder\<close>: round trip 0 begins the transaction, 1 is the MERGE, 2 the DELETE,
  \<open>3 + i\<close> the INSERT of item \<open>i\<close>, and the one after the last INSERT the commit. On
  every error return the deferred \<open>tx.Rollback()\<close> leaves the store as it was.
\<close>

fun insert_order_items ::
  "(nat \<Rightarrow> string option) \<Rightarrow> nat \<Rightarrow> string \<Rightarrow> OrderItem list \<Rightarrow> db \<Rightarrow> string + db" where
  "insert_order_items fault k oid [] d = Inr d"
| "insert_order_items fault k oid (item # items) d =
     (case exec_insert_order_item (fault k) oid item d of
        Inl err \<Rightarrow> Inl (''failed to insert order item: '' @ err)
      | Inr d' \<Rightarrow> insert_order_items fault (Suc k) oid items d')"

definition UpsertOrder :: "env \<Rightarrow> OrderPlaced \<Rightarrow> world \<Rightarrow> string option \<times> world" where
  "UpsertOrder e event w =
     observe_db ''upsert_order''
       (let w0 = gateway_enter ''UpsertOrder'' w in
        case db_fault e 0 of
          Some err \<Rightarrow> (Some (''failed to begin transaction: '' @ err), w0)
        | None \<Rightarrow>
        (case exec_merge_orders (db_fault e 1) (db_clock e) event (store w0) of
          Inl err \<Rightarrow> (Some (''failed to upsert order: '' @ err), w0)
        | Inr d1 \<Rightarrow>
        (case exec_delete_order_items (db_fault e 2) (op_OrderID event) d1 of
          Inl err \<Rightarrow> (Some (''failed to delete existing order items: '' @ err), w0)
        | Inr d2 \<Rightarrow>
        (case insert_order_items (db_fault e) 3 (op_OrderID event) (op_Items event) d2 of
          Inl err \<Rightarrow> (Some err, w0)
        | Inr d3 \<Rightarrow>
        (case db_fault e (3 + length (op_Items event)) of
          Some err \<Rightarrow> (Some (''failed to commit transaction: '' @ err), w0)
        | None \<Rightarrow> (None, w0\<lparr>store := d3\<rparr>))))))"

definition UpsertPayment :: "env \<Rightarrow> PaymentSettled \<Rightarrow> world \<Rightarrow> string option \<times> world" where
  "UpsertPayment e event w =
     observe_db ''upsert_payment''
       (let w0 = gateway_enter ''UpsertPayment'' w in
        case exec_merge_payments (db_fault e 0) (db_clock e) event (store w0) of
          Inl err \<Rightarrow> (Some (''failed to upsert payment: '' @ err), w0)
        | Inr d \<Rightarrow> (None, w0\<lparr>store := d\<rparr>))"

text \<open>
  \<open>UpsertInventory\<close>: \<open>delta := event.Quantity\<close>, negated (in 64-bit arithmetic) when
  the adjustment type is \<open>"subtract"\<close>; the signed value of \<open>delta\<close> is \<open>@p2\<close>.
\<close>

definition inventory_delta :: "InventoryAdjusted \<Rightarrow> 64 word" where
  "inventory_delta event =
     (if ia_AdjustmentType event = ''subtract'' then - ia_Quantity event
      else ia_Quantity event)"

definition UpsertInventory :: "env \<Rightarrow> InventoryAdjusted \<Rightarrow> world \<Rightarrow> string option \<times> world" where
  "UpsertInventory e event w =
     observe_db ''upsert_inventory''
       (let w0 = gateway_enter ''UpsertInventory'' w;
            delta = inventory_delta event in
        case exec_merge_inventory (db_fault e 0) (db_clock e) (ia_SKU event) (sint delta)
               (store w0) of
          Inl err \<Rightarrow> (Some (''failed to upsert inventory: '' @ err), w0)
        | Inr d \<Rightarrow> (None, w0\<lparr>store := d\<rparr>))"

section \<open>Dead-letter queue (package dlq)\<close>

text \<open>
  \<open>json.Marshal\<close> writes a Go string as a JSON string coerced to valid UTF-8: going
  through the bytes, a byte below 128 and a well-formed UTF-8 sequence of two to four
  bytes are kept, and every other byte is replaced, one byte at a time, by the
  replacement character U+FFFD (the bytes EF BF BD). \<open>rune_size\<close> is the length of
  the well-formed sequence at the head of a string, 0 when there is none (the cases
  of \<open>utf8.DecodeRuneInString\<close>: no overlong forms, no surrogates, nothing above
  U+10FFFF), and \<open>coerce_utf8 k\<close> copies \<open>k\<close> bytes of a sequence already recognised
  before it looks at the next head.
\<close>

definition continuation :: "char \<Rightarrow> bool" where
  "continuation c = (128 \<le> (of_char c :: nat) \<and> (of_char c :: nat) < 192)"

fun rune_size :: "string \<Rightarrow> nat" where
  "rune_size [] = 0"
| "rune_size (c # cs) =
     (let b = (of_char c :: nat) in
      if b < 128 then 1
      else if 194 \<le> b \<and> b < 224 then
        (case cs of c1 # _ \<Rightarrow> if continuation c1 then 2 else 0 | _ \<Rightarrow> 0)
      else if 224 \<le> b \<and> b < 240 then
        (case cs of
           c1 # c2 # _ \<Rightarrow>
             (let b1 = (of_char c1 :: nat) in
              if (if b = 224 then 160 \<le> b1 \<and> b1 < 192
                  else if b = 237 then 128 \<le> b1 \<and> b1 < 160
                  else 128 \<le> b1 \<and> b1 < 192) \<and> continuation c2
              then 3 else 0)
         | _ \<Rightarrow> 0)
      else if 240 \<le> b \<and> b < 245 then
        (case cs of
           c1 # c2 # c3 # _ \<Rightarrow>
             (let b1 = (of_char c1 :: nat) in
              if (if b = 240 then 144 \<le> b1 \<and> b1 < 192
                  else if b = 244 then 128 \<le> b1 \<and> b1 < 144
                  else 128 \<le> b1 \<and> b1 < 192) \<and> continuation c2 \<and> continuation c3
              then 4 else 0)
         | _ \<Rightarrow> 0)
      else 0)"

definition replacement_char :: string where
  "replacement_char = [char_of (239 :: nat), char_of (191 :: nat), char_of (189 :: nat)]"

fun coerce_utf8 :: "nat \<Rightarrow> string \<Rightarrow> string" where
  "coerce_utf8 k [] = []"
| "coerce_utf8 (Suc k) (c # cs) = c # coerce_utf8 k cs"
| "coerce_utf8 0 (c # cs) =
     (if rune_size (c # cs) = 0 then replacement_char @ coerce_utf8 0 cs
      else c # coerce_utf8 (rune_size (c # cs) - 1) cs)"

definition to_valid_utf8 :: "string \<Rightarrow> string" where
  "to_valid_utf8 s = coerce_utf8 0 s"

text \<open>
  A string is valid UTF-8 when it is a sequence of well-formed sequences; these are
  the strings that \<open>json.Marshal\<close> writes as they are.
\<close>

fun valid_utf8_from :: "nat \<Rightarrow> string \<Rightarrow> bool" where
  "valid_utf8_from k [] = (k = 0)"
| "valid_utf8_from (Suc k) (c # cs) = valid_utf8_from k cs"
| "valid_utf8_from 0 (c # cs) =
     (rune_size (c # cs) \<noteq> 0 \<and> valid_utf8_from (rune_size (c # cs) - 1) cs)"

definition valid_utf8 :: "string \<Rightarrow> bool" where
  "valid_utf8 s = valid_utf8_from 0 s"

text \<open>
  \<open>Push\<close> builds the entry, marshals it and appends the JSON text to the Redis list;
  only then does it increment \<open>DLQCount\<close>. Either step can fail, and then nothing is
  stored. The model keeps, for each JSON text of the list, the entry that the text
  decodes to (what \<open>GetEntries\<close> reads back): \<open>marshal_DLQEntry\<close> is the entry with
  its three strings coerced to valid UTF-8; the escapes that \<open>json.Marshal\<close> writes
  are undone by decoding, and the timestamp is the same instant.
\<close>

definition marshal_DLQEntry :: "DLQEntry \<Rightarrow> DLQEntry" where
  "marshal_DLQEntry entry =
     entry\<lparr>dq_EventID := to_valid_utf8 (dq_EventID entry),
           dq_OriginalData := to_valid_utf8 (dq_OriginalData entry),
           dq_Error := to_valid_utf8 (dq_Error entry)\<rparr>"

definition Push :: "env \<Rightarrow> string \<Rightarrow> string \<Rightarrow> string \<Rightarrow> world \<Rightarrow> string option \<times> world" where
  "Push e eventID originalData errorMsg w =
     (let w0 = w\<lparr>calls := calls w @ [SinkPush eventID originalData errorMsg]\<rparr>;
          entry = \<lparr>dq_EventID = eventID, dq_OriginalData = originalData,
                   dq_Error = errorMsg, dq_Timestamp = dlq_clock e, dq_RetryCount = 0\<rparr> in
      case dlq_marshal_fault e of
        Some err \<Rightarrow> (Some (''failed to marshal DLQ entry: '' @ err), w0)
      | None \<Rightarrow>
          (case dlq_fault e of
             Some err \<Rightarrow> (Some (''failed to push to DLQ: '' @ err), w0)
           | None \<Rightarrow>
               (None, w0\<lparr>sink := sink w0 @ [marshal_DLQEntry entry],
                         DLQCount := Suc (DLQCount w0)\<rparr>)))"


section \<open>Consumer (package consumer)\<close>

text \<open>
  \<open>json.Unmarshal\<close> is a parameter. Decoding the envelope returns the \<open>BaseEvent\<close> as
  far as it was filled together with the error, if any, because \<open>processMessage\<close>
  reads \<open>baseEvent.EventID\<close> after a failed decode; the handlers use the decoded
  event only when there was no error.
\<close>

record codec =
  unmarshal_BaseEvent :: "string \<Rightarrow> BaseEvent \<times> string option"
  unmarshal_UserCreated :: "string \<Rightarrow> string + UserCreated"
  unmarshal_OrderPlaced :: "string \<Rightarrow> string + OrderPlaced"
  unmarshal_PaymentSettled :: "string \<Rightarrow> string + PaymentSettled"
  unmarshal_InventoryAdjusted :: "string \<Rightarrow> string + InventoryAdjusted"

definition handleUserCreated ::
  "codec \<Rightarrow> env \<Rightarrow> string \<Rightarrow> string \<Rightarrow> world \<Rightarrow> string option \<times> world" where
  "handleUserCreated cd e data eventID w =
     (case unmarshal_UserCreated cd data of
        Inl err \<Rightarrow> (Some (''failed to unmarshal UserCreated event: '' @ err), w)
      | Inr event \<Rightarrow> UpsertUser e event w)"

definition handleOrderPlaced ::
  "codec \<Rightarrow> env \<Rightarrow> string \<Rightarrow> string \<Rightarrow> world \<Rightarrow> string option \<times> world" where
  "handleOrderPlaced cd e data eventID w =
     (case unmarshal_OrderPlaced cd data of
        Inl err \<Rightarrow> (Some (''failed to unmarshal OrderPlaced event: '' @ err), w)
      | Inr event \<Rightarrow> UpsertOrder e event w)"

definition handlePaymentSettled ::
  "codec \<Rightarrow> env \<Rightarrow> string \<Rightarrow> string \<Rightarrow> world \<Rightarrow> string option \<times> world" where
  "handlePaymentSettled cd e data eventID w =
     (case unmarshal_PaymentSettled cd data of
        Inl err \<Rightarrow> (Some (''failed to unmarshal PaymentSettled event: '' @ err), w)
      | Inr event \<Rightarrow> UpsertPayment e event w)"

definition handleInventoryAdjusted ::
  "codec \<Rightarrow> env \<Rightarrow> string \<Rightarrow> string \<Rightarrow> world \<Rightarrow> string option \<times> world" where
  "handleInventoryAdjusted cd e data eventID w =
     (case unmarshal_InventoryAdjusted cd data of
        Inl err \<Rightarrow> (Some (''failed to unmarshal InventoryAdjusted event: '' @ err), w)
      | Inr event \<Rightarrow> UpsertInventory e event w)"

text \<open>\<open>sendToDLQ\<close> logs a failed push and returns nothing.\<close>

definition sendToDLQ :: "env \<Rightarrow> string \<Rightarrow> string \<Rightarrow> string \<Rightarrow> world \<Rightarrow> world" where
  "sendToDLQ e eventID originalData errorMsg w = snd (Push e eventID originalData errorMsg w)"

text \<open>
  \<open>CommitMessage\<close> of the broker client commits the offset after the message's own
  for the message's partition, unless the commit fails.
\<close>

definition CommitMessage :: "env \<Rightarrow> Message \<Rightarrow> world \<Rightarrow> string option \<times> world" where
  "CommitMessage e msg w =
     (let w0 = w\<lparr>calls := calls w @ [OffsetCommit (msg_Partition msg) (msg_Offset msg)]\<rparr> in
      case commit_fault e of
        Some err \<Rightarrow> (Some err, w0)
      | None \<Rightarrow>
          (None, w0\<lparr>committed := (committed w0)(msg_Partition msg := Some (Suc (msg_Offset msg)))\<rparr>))"

definition inc_MessagesProcessed :: "string \<Rightarrow> string \<Rightarrow> world \<Rightarrow> world" where
  "inc_MessagesProcessed event_type status w =
     w\<lparr>MessagesProcessed :=
          (MessagesProcessed w)((event_type, status) := Suc (MessagesProcessed w (event_type, status)))\<rparr>"

definition inc_processedCount :: "string \<Rightarrow> world \<Rightarrow> world" where
  "inc_processedCount event_type w =
     w\<lparr>processedCount :=
          (processedCount w)(event_type :=
             Some ((case processedCount w event_type of None \<Rightarrow> 0 | Some n \<Rightarrow> n) + 1))\<rparr>"

definition observe_consume :: "world \<Rightarrow> world" where
  "observe_consume w = w\<lparr>KafkaConsumeLatency := Suc (KafkaConsumeLatency w)\<rparr>"

text \<open>
  \<open>dispatch\<close> is the \<open>switch baseEvent.EventType\<close> of \<open>processMessage\<close>: its value is
  the \<open>err\<close> the switch assigns. \<open>processMessage\<close> returns early when the envelope
  does not decode; its deferred observation of the consume latency runs on both
  return paths.
\<close>

definition dispatch ::
  "codec \<Rightarrow> env \<Rightarrow> BaseEvent \<Rightarrow> string \<Rightarrow> world \<Rightarrow> string option \<times> world" where
  "dispatch cd e baseEvent data w =
     (if EventType baseEvent = UserCreatedEvent
      then handleUserCreated cd e data (EventID baseEvent) w
      else if EventType baseEvent = OrderPlacedEvent
      then handleOrderPlaced cd e data (EventID baseEvent) w
      else if EventType baseEvent = PaymentSettledEvent
      then handlePaymentSettled cd e data (EventID baseEvent) w
      else if EventType baseEvent = InventoryAdjustedEvent
      then handleInventoryAdjusted cd e data (EventID baseEvent) w
      else (Some (''unknown event type: '' @ EventType baseEvent), w))"

definition processMessage :: "codec \<Rightarrow> env \<Rightarrow> Message \<Rightarrow> world \<Rightarrow> world" where
  "processMessage cd e msg w =
     observe_consume
       (case unmarshal_BaseEvent cd (msg_Value msg) of
          (baseEvent, Some perr) \<Rightarrow>
            snd (CommitMessage e msg
                   (sendToDLQ e (EventID baseEvent) (msg_Value msg)
                      (''Failed to parse base event: '' @ perr) w))
        | (baseEvent, None) \<Rightarrow>
            (let r = dispatch cd e baseEvent (msg_Value msg) w;
                 w2 = (case fst r of
                         Some err \<Rightarrow>
                           inc_MessagesProcessed (EventType baseEvent) ''error''
                             (sendToDLQ e (EventID baseEvent) (msg_Value msg) err (snd r))
                       | None \<Rightarrow>
                           inc_processedCount (EventType baseEvent)
                             (inc_MessagesProcessed (EventType baseEvent) ''success'' (snd r)))
             in snd (CommitMessage e msg w2)))"

text \<open>
  \<open>Start\<close>. The goroutine on the one-second ticker visits every key of
  \<open>processedCount\<close>: a positive count is copied to the gauge and reset, any other
  count is skipped. The keys are handled independently of each other, so the order
  of the map iteration does not show. The loop of \<open>Start\<close> runs until the context is
  cancelled; what happens until then is a finite schedule of ticker firings and of
  results of \<open>ReadMessage\<close>, each handled to its end before the next (the two
  goroutines share the map without a lock; their interleaving inside one step is
  not modelled).
\<close>

definition ticker_fire :: "world \<Rightarrow> world" where
  "ticker_fire w =
     w\<lparr>MessagesProcessedPerSecond :=
          (\<lambda>eventType. case processedCount w eventType of
                          Some count \<Rightarrow> if 0 < count then Some count
                                        else MessagesProcessedPerSecond w eventType
                        | None \<Rightarrow> MessagesProcessedPerSecond w eventType),
        processedCount :=
          (\<lambda>eventType. case processedCount w eventType of
                          Some count \<Rightarrow> if 0 < count then Some 0 else Some count
                        | None \<Rightarrow> None)\<rparr>"

datatype occurrence =
  TickerFires
  | ReadTimedOut
  | ReadFailed string
  | ReadMessage env Message

fun Start_step :: "codec \<Rightarrow> occurrence \<Rightarrow> world \<Rightarrow> world" where
  "Start_step cd TickerFires w = ticker_fire w"
| "Start_step cd ReadTimedOut w = w"
| "Start_step cd (ReadFailed err) w = w"
| "Start_step cd (ReadMessage e msg) w = processMessage cd e msg w"

definition Start :: "codec \<Rightarrow> occurrence list \<Rightarrow> world \<Rightarrow> world" where
  "Start cd schedule w = fold (Start_step cd) schedule (w\<lparr>processedCount := (\<lambda>_. None)\<rparr>)"

text \<open>
  Modelled from the spec: \<open>ReadMessage\<close> of the broker client, which is not part of
  the repository. The specification has the pull call block up to a short timeout
  when no message is available, has messages read strictly in the order the broker
  delivers them for a given partition, and has the next poll never deliver again a
  message already delivered to the same pipeline instance (absent a crash). So a
  poll that the broker serves from partition \<open>p\<close> returns the message at the
  position of the consumer handle in \<open>p\<close> and moves the position past it, and
  times out when the position is at the end of the partition. The position is state
  of the handle in this process: a restart, which reads on from the committed
  offset, is not part of the model.

  \<open>Start_poll\<close> is one turn of the loop of \<open>Start\<close> with the result of \<open>ReadMessage\<close>
  taken from this client instead of a schedule: the call of \<open>ReadMessage\<close> and what
  \<open>Start\<close> does with its result.
\<close>

definition consumer_ReadMessage :: "nat \<Rightarrow> world \<Rightarrow> Message option \<times> world" where
  "consumer_ReadMessage p w =
     (if position w p < length (topic w p)
      then (Some \<lparr>msg_Value = topic w p ! position w p, msg_Partition = p,
                   msg_Offset = position w p\<rparr>,
            w\<lparr>position := (position w)(p := Suc (position w p))\<rparr>)
      else (None, w))"

definition Start_poll :: "codec \<Rightarrow> env \<Rightarrow> nat \<Rightarrow> world \<Rightarrow> world" where
  "Start_poll cd e p w =
     (case consumer_ReadMessage p w of
        (Some msg, w1) \<Rightarrow> Start_step cd (ReadMessage e msg) w1
      | (None, w1) \<Rightarrow> Start_step cd ReadTimedOut w1)"

text \<open>
  The messages that a run of polls delivers, in order; each poll names the partition
  that the broker serves it from and the environment its message is handled in.
\<close>

fun delivered :: "codec \<Rightarrow> (env \<times> nat) list \<Rightarrow> world \<Rightarrow> Message list" where
  "delivered cd [] w = []"
| "delivered cd ((e, p) # polls) w =
     (case fst (consumer_ReadMessage p w) of Some m \<Rightarrow> [m] | None \<Rightarrow> [])
       @ delivered cd polls (Start_poll cd e p w)"

section \<open>Queries on the state\<close>







definition stock :: "db \<Rightarrow> string \<Rightarrow> int option" where
  "stock d sku =
     map_option inventory_quantity (find (\<lambda>r. inventory_sku r = sku) (inventory d))"


section \<open>Sample inputs\<close>

text \<open>
  \<open>calm t\<close> is an environment in which every clock reads \<open>t\<close> and no call fails;
  \<open>fresh_world\<close> is the state of a process that has handled nothing on an empty
  store. The events are those of the demo producer (Alice Johnson and her laptop
  order) and of the edge-case scenario (a return of 50 units).
\<close>

definition calm :: "time \<Rightarrow> env" where
  "calm t = \<lparr>db_clock = t, db_fault = (\<lambda>k. None), dlq_clock = t,
             dlq_marshal_fault = None, dlq_fault = None, commit_fault = None\<rparr>"

definition empty_db :: db where
  "empty_db = \<lparr>users = [], orders = [], order_items = [], payments = [], inventory = []\<rparr>"

definition fresh_world :: world where
  "fresh_world =
     \<lparr>store = empty_db, sink = [], MessagesProcessed = (\<lambda>l. 0),
      MessagesProcessedPerSecond = (\<lambda>l. None), DLQCount = 0, DBLatency = (\<lambda>l. 0),
      KafkaConsumeLatency = 0, processedCount = (\<lambda>l. None), committed = (\<lambda>p. None),
      calls = [], topic = (\<lambda>p. []), position = (\<lambda>p. 0)\<rparr>"

definition alice :: UserCreated where
  "alice = \<lparr>EventID = ''evt-1'', EventType = UserCreatedEvent, Timestamp = 100,
            uc_UserID = ''user-1'', uc_Email = ''alice@example.com'',
            uc_FirstName = ''Alice'', uc_LastName = ''Johnson'', uc_CreatedAt = 100\<rparr>"

definition alice_renamed :: UserCreated where
  "alice_renamed = \<lparr>EventID = ''evt-5'', EventType = UserCreatedEvent, Timestamp = 500,
            uc_UserID = ''user-1'', uc_Email = ''alice.smith@example.com'',
            uc_FirstName = ''Alice'', uc_LastName = ''Smith'', uc_CreatedAt = 500\<rparr>"

definition returned_50 :: InventoryAdjusted where
  "returned_50 = \<lparr>EventID = ''evt-9'', EventType = InventoryAdjustedEvent, Timestamp = 900,
            ia_SKU = ''X'', ia_Quantity = - 50, ia_AdjustmentType = ''returned'',
            ia_Reason = ''customer return'', ia_AdjustedAt = 900\<rparr>"

definition subtract_5 :: InventoryAdjusted where
  "subtract_5 = \<lparr>EventID = ''evt-8'', EventType = InventoryAdjustedEvent, Timestamp = 800,
            ia_SKU = ''X'', ia_Quantity = 5, ia_AdjustmentType = ''subtract'',
            ia_Reason = ''shipment'', ia_AdjustedAt = 800\<rparr>"

definition world_with_stock :: world where
  "world_with_stock =
     fresh_world\<lparr>store := empty_db\<lparr>inventory :=
       [\<lparr>inventory_sku = ''X'', inventory_quantity = 10, inventory_updated_at = 50\<rparr>]\<rparr>\<rparr>"

definition world_with_alice :: world where
  "world_with_alice = snd (UpsertUser (calm 110) alice fresh_world)"

text \<open>
  A decoder for five message bodies, standing for \<open>json.Unmarshal\<close> on them: Alice's
  registration, the return of 50 units, an envelope with an unknown event type,
  a body that is not JSON, and an order whose amount has the wrong type (the envelope
  decodes, the payload does not). Every other body fails to decode.
\<close>

definition body_alice :: string where
  "body_alice = ''{eventId: evt-1, eventType: UserCreated, userId: user-1}''"

definition body_returned_50 :: string where
  "body_returned_50 = ''{eventId: evt-9, eventType: InventoryAdjusted, sku: X, quantity: -50}''"

definition body_unknown :: string where
  "body_unknown = ''{eventId: test-456, eventType: UnknownEvent}''"

definition body_garbage :: string where
  "body_garbage = ''This is not JSON at all!''"

definition body_bad_order :: string where
  "body_bad_order = ''{eventId: evt-7, eventType: OrderPlaced, totalAmount: free}''"

definition zero_BaseEvent :: BaseEvent where
  "zero_BaseEvent = \<lparr>EventID = [], EventType = [], Timestamp = 0\<rparr>"

definition sample_codec :: codec where
  "sample_codec =
     \<lparr>unmarshal_BaseEvent = (\<lambda>data.
        if data = body_alice
        then (\<lparr>EventID = ''evt-1'', EventType = UserCreatedEvent, Timestamp = 100\<rparr>, None)
        else if data = body_returned_50
        then (\<lparr>EventID = ''evt-9'', EventType = InventoryAdjustedEvent, Timestamp = 900\<rparr>, None)
        else if data = body_unknown
        then (\<lparr>EventID = ''test-456'', EventType = ''UnknownEvent'', Timestamp = 0\<rparr>, None)
        else if data = body_bad_order
        then (\<lparr>EventID = ''evt-7'', EventType = OrderPlacedEvent, Timestamp = 0\<rparr>, None)
        else (zero_BaseEvent, Some ''invalid character'')),
      unmarshal_UserCreated = (\<lambda>data.
        if data = body_alice then Inr alice else Inl ''cannot unmarshal''),
      unmarshal_OrderPlaced = (\<lambda>data. Inl ''cannot unmarshal string into float64''),
      unmarshal_PaymentSettled = (\<lambda>data. Inl ''cannot unmarshal''),
      unmarshal_InventoryAdjusted = (\<lambda>data.
        if data = body_returned_50 then Inr returned_50 else Inl ''cannot unmarshal'')\<rparr>"

definition message :: "string \<Rightarrow> nat \<Rightarrow> Message" where
  "message body off = \<lparr>msg_Value = body, msg_Partition = 0, msg_Offset = off\<rparr>"







text \<open>The gateway calls and the offset commits of a journal, in order.\<close>

fun gateway_calls :: "call list \<Rightarrow> string list" where
  "gateway_calls [] = []"
| "gateway_calls (GatewayCall name # cs) = name # gateway_calls cs"
| "gateway_calls (c # cs) = gateway_calls cs"

fun commits :: "call list \<Rightarrow> (nat \<times> nat) list" where
  "commits [] = []"
| "commits (OffsetCommit p off # cs) = (p, off) # commits cs"
| "commits (c # cs) = commits cs"

fun pushes :: "call list \<Rightarrow> (string \<times> string \<times> string) list" where
  "pushes [] = []"
| "pushes (SinkPush i d m # cs) = (i, d, m) # pushes cs"
| "pushes (c # cs) = pushes cs"

definition known_event_types :: "string list" where
  "known_event_types =
     [UserCreatedEvent, OrderPlacedEvent, PaymentSettledEvent, InventoryAdjustedEvent]"


definition push_succeeds :: "env \<Rightarrow> bool" where
  "push_succeeds e = (dlq_marshal_fault e = None \<and> dlq_fault e = None)"

definition broker_down :: "time \<Rightarrow> env" where
  "broker_down t = (calm t)\<lparr>commit_fault := Some ''broker unavailable''\<rparr>"

definition store_down :: "time \<Rightarrow> env" where
  "store_down t = (calm t)\<lparr>db_fault := (\<lambda>k. Some ''connection reset'')\<rparr>"



definition body_latin1 :: string where
  "body_latin1 = ''caf'' @ [char_of (233 :: nat)]"

definition world_with_topic :: world where
  "world_with_topic =
     fresh_world\<lparr>topic := (\<lambda>p. if p = 0 then [body_garbage, body_alice] else [])\<rparr>"

definition world_polled :: world where
  "world_polled = snd (consumer_ReadMessage 0 world_with_topic)"

section \<open>Auxiliary facts\<close>

subsection \<open>Strings coerced to valid UTF-8\<close>











lemma latin1_not_valid:
  "\<not> valid_utf8 body_latin1"
  by (simp add: valid_utf8_def body_latin1_def)


subsection \<open>Lists of rows\<close>

lemma find_key_Some:
  "find (\<lambda>r. f r = k) xs = Some r \<Longrightarrow> r \<in> set xs \<and> f r = k \<and> k \<in> set (map f xs)"
  by (induction xs) (auto split: if_splits)

lemma find_key_None:
  "find (\<lambda>r. f r = k) xs = None \<Longrightarrow>
   k \<notin> set (map f xs) \<and> filter (\<lambda>r. f r = k) xs = []"
  by (induction xs) (auto split: if_splits)

lemma filter_key_distinct:
  "distinct (map f xs) \<Longrightarrow> find (\<lambda>r. f r = k) xs = Some r \<Longrightarrow>
   filter (\<lambda>r. f r = k) xs = [r]"
proof (induction xs)
  case Nil
  then show ?case by simp
next
  case (Cons x xs)
  show ?case
  proof (cases "f x = k")
    case True
    with Cons.prems have "x = r" and "k \<notin> f ` set xs"
      by auto
    then have "filter (\<lambda>r. f r = k) xs = []"
      by (auto simp: filter_empty_conv)
    with True \<open>x = r\<close> show ?thesis by simp
  next
    case False
    with Cons show ?thesis by simp
  qed
qed



lemma update_where_keys:
  "(\<And>r. key (upd r) = key r) \<Longrightarrow>
   map key (map (\<lambda>r. if key r = k then upd r else r) tbl) = map key tbl"
  by (induction tbl) auto



subsection \<open>Inventory\<close>

lemma find_merge_inventory_hit:
  assumes "find (\<lambda>r. inventory_sku r = sku) tbl = Some r"
  shows "find (\<lambda>r. inventory_sku r = sku) (merge_inventory now sku delta tbl)
           = Some (r\<lparr>inventory_quantity := inventory_quantity r + delta,
                     inventory_updated_at := now\<rparr>)"
proof -
  from find_key_Some [OF assms] have m: "sku \<in> set (map inventory_sku tbl)"
    by blast
  have "find (\<lambda>r. inventory_sku r = sku)
          (map (\<lambda>r. if inventory_sku r = sku
                     then r\<lparr>inventory_quantity := inventory_quantity r + delta,
                            inventory_updated_at := now\<rparr>
                     else r) tbl)
        = Some (r\<lparr>inventory_quantity := inventory_quantity r + delta,
                  inventory_updated_at := now\<rparr>)"
    using assms by (induction tbl) (auto split: if_splits)
  with m show ?thesis by (simp add: merge_inventory_def)
qed

lemma find_merge_inventory_miss:
  assumes "find (\<lambda>r. inventory_sku r = sku) tbl = None"
  shows "find (\<lambda>r. inventory_sku r = sku) (merge_inventory now sku delta tbl)
           = Some \<lparr>inventory_sku = sku, inventory_quantity = delta, inventory_updated_at = now\<rparr>"
proof -
  from find_key_None [OF assms] have m: "sku \<notin> set (map inventory_sku tbl)"
    by blast
  have "find (\<lambda>r. inventory_sku r = sku)
          (tbl @ [\<lparr>inventory_sku = sku, inventory_quantity = delta, inventory_updated_at = now\<rparr>])
        = Some \<lparr>inventory_sku = sku, inventory_quantity = delta, inventory_updated_at = now\<rparr>"
    using assms by (induction tbl) (auto split: if_splits)
  with m show ?thesis by (simp add: merge_inventory_def)
qed

lemma stock_merge_inventory:
  "stock (d\<lparr>inventory := merge_inventory now sku delta (inventory d)\<rparr>) sku
     = Some ((case stock d sku of None \<Rightarrow> 0 | Some q \<Rightarrow> q) + delta)"
  by (cases "find (\<lambda>r. inventory_sku r = sku) (inventory d)")
     (simp_all add: stock_def find_merge_inventory_hit find_merge_inventory_miss)

lemma UpsertInventory_result:
  "UpsertInventory e event w =
     (case exec_merge_inventory (db_fault e 0) (db_clock e) (ia_SKU event)
             (sint (inventory_delta event)) (store w) of
        Inl err \<Rightarrow>
          (Some (''failed to upsert inventory: '' @ err),
           (gateway_enter ''UpsertInventory'' w)
             \<lparr>DBLatency := (DBLatency w)
                 (''upsert_inventory'' := Suc (DBLatency w ''upsert_inventory''))\<rparr>)
      | Inr d \<Rightarrow>
          (None,
           (gateway_enter ''UpsertInventory'' w)
             \<lparr>store := d,
              DBLatency := (DBLatency w)
                 (''upsert_inventory'' := Suc (DBLatency w ''upsert_inventory''))\<rparr>))"
  by (simp add: UpsertInventory_def observe_db_def gateway_enter_def Let_def split: sum.splits)

lemma UpsertInventory_success:
  assumes "UpsertInventory e event w = (None, w')"
  shows "store w' = (store w)\<lparr>inventory := merge_inventory (db_clock e) (ia_SKU event)
                       (sint (inventory_delta event)) (inventory (store w))\<rparr>"
  using assms
  by (auto simp: UpsertInventory_result exec_merge_inventory_def gateway_enter_def
           split: sum.splits option.splits)

lemma run_returned_50:
  "UpsertInventory (calm 900) returned_50 world_with_stock =
     (None, snd (UpsertInventory (calm 900) returned_50 world_with_stock))"
  by (simp add: UpsertInventory_result exec_merge_inventory_def inventory_violation_def
        inventory_delta_def returned_50_def world_with_stock_def fresh_world_def empty_db_def
        calm_def fits_int32_def)

text \<open>
  C3 (as amended). When \<open>UpsertInventory\<close> succeeds, the quantity stored for the
  event's SKU is the quantity stored before (nothing, that is 0, when the SKU had no
  row: the insert path) plus the delta, and the delta is the event's quantity field
  for every adjustment type except \<open>"subtract"\<close>, for which it is the 64-bit negation
  of the quantity field.
\<close>

theorem UpsertInventory_applies_delta:
  assumes "UpsertInventory e event w = (None, w')"
  shows "stock (store w') (ia_SKU event)
           = Some ((case stock (store w) (ia_SKU event) of None \<Rightarrow> 0 | Some q \<Rightarrow> q)
                   + sint (if ia_AdjustmentType event = ''subtract''
                           then - ia_Quantity event else ia_Quantity event))"
  using UpsertInventory_success [OF assms]
  by (simp add: stock_merge_inventory inventory_delta_def)

theorem UpsertInventory_applies_delta_witness:
  "UpsertInventory (calm 900) returned_50 world_with_stock
     = (None, snd (UpsertInventory (calm 900) returned_50 world_with_stock))
   \<and> stock (store world_with_stock) ''X'' = Some 10
   \<and> stock (store (snd (UpsertInventory (calm 900) returned_50 world_with_stock))) ''X''
       = Some (- 40)"
proof -
  have sku: "ia_SKU returned_50 = ''X''"
    by (simp add: returned_50_def)
  have delta: "sint (if ia_AdjustmentType returned_50 = ''subtract''
                     then - ia_Quantity returned_50 else ia_Quantity returned_50) = - 50"
    by (simp add: returned_50_def)
  have before: "stock (store world_with_stock) ''X'' = Some 10"
    by (simp add: world_with_stock_def fresh_world_def empty_db_def stock_def)
  have "stock (store (snd (UpsertInventory (calm 900) returned_50 world_with_stock))) ''X''
          = Some (- 40)"
    using UpsertInventory_applies_delta [OF run_returned_50]
    by (simp add: sku delta before)
  with before run_returned_50 show ?thesis by blast
qed

text \<open>
  C3 as stated fails: a \<open>"subtract"\<close> event with quantity 5 for a SKU without a
  row succeeds and inserts the quantity -5, not the event's quantity field.
\<close>

theorem UpsertInventory_subtract_counterexample:
  "fst (UpsertInventory (calm 800) subtract_5 fresh_world) = None
   \<and> stock (store fresh_world) ''X'' = None
   \<and> sint (ia_Quantity subtract_5) = 5
   \<and> stock (store (snd (UpsertInventory (calm 800) subtract_5 fresh_world))) ''X''
       = Some (- 5)"
  by (simp add: UpsertInventory_result exec_merge_inventory_def inventory_violation_def
        inventory_delta_def merge_inventory_def subtract_5_def fresh_world_def empty_db_def
        calm_def fits_int32_def stock_def gateway_enter_def)

lemma inventory_violation_single:
  assumes "find (\<lambda>r. inventory_sku r = sku) tbl = Some r"
      and "distinct (map inventory_sku tbl)"
      and "length sku \<le> 50" and "fits_int32 (inventory_quantity r + delta)"
  shows "inventory_violation sku delta tbl = None"
proof -
  from find_key_Some [OF assms(1)] have "sku \<in> set (map inventory_sku tbl)"
    by blast
  moreover have "filter (\<lambda>r. inventory_sku r = sku) tbl = [r]"
    using assms(2,1) by (rule filter_key_distinct)
  ultimately show ?thesis
    using assms(3,4) by (simp add: inventory_violation_def)
qed

subsection \<open>What \<open>processMessage\<close> leaves alone\<close>

lemma event_types_distinct:
  "UserCreatedEvent \<noteq> OrderPlacedEvent" "UserCreatedEvent \<noteq> PaymentSettledEvent"
  "UserCreatedEvent \<noteq> InventoryAdjustedEvent" "OrderPlacedEvent \<noteq> PaymentSettledEvent"
  "OrderPlacedEvent \<noteq> InventoryAdjustedEvent" "PaymentSettledEvent \<noteq> InventoryAdjustedEvent"
  "OrderPlacedEvent \<noteq> UserCreatedEvent" "PaymentSettledEvent \<noteq> UserCreatedEvent"
  "InventoryAdjustedEvent \<noteq> UserCreatedEvent" "PaymentSettledEvent \<noteq> OrderPlacedEvent"
  "InventoryAdjustedEvent \<noteq> OrderPlacedEvent" "InventoryAdjustedEvent \<noteq> PaymentSettledEvent"
  by (simp_all add: UserCreatedEvent_def OrderPlacedEvent_def PaymentSettledEvent_def
        InventoryAdjustedEvent_def)

lemma store_Push [simp]: "store (snd (Push e i d m w)) = store w"
  by (simp add: Push_def Let_def split: option.splits)

lemma store_sendToDLQ [simp]: "store (sendToDLQ e i d m w) = store w"
  by (simp add: sendToDLQ_def)

lemma store_CommitMessage [simp]: "store (snd (CommitMessage e msg w)) = store w"
  by (simp add: CommitMessage_def Let_def split: option.splits)

lemma store_inc_MessagesProcessed [simp]: "store (inc_MessagesProcessed t s w) = store w"
  by (simp add: inc_MessagesProcessed_def)

lemma store_inc_processedCount [simp]: "store (inc_processedCount t w) = store w"
  by (simp add: inc_processedCount_def)

lemma store_observe_consume [simp]: "store (observe_consume w) = store w"
  by (simp add: observe_consume_def)

lemma store_processMessage_inventory:
  assumes "unmarshal_BaseEvent cd (msg_Value msg) = (b, None)"
      and "EventType b = InventoryAdjustedEvent"
      and "unmarshal_InventoryAdjusted cd (msg_Value msg) = Inr event"
  shows "store (processMessage cd e msg w) = store (snd (UpsertInventory e event w))"
  using assms
  by (simp add: processMessage_def dispatch_def handleInventoryAdjusted_def
        event_types_distinct Let_def split: option.splits)

text \<open>
  C8. An \<open>InventoryAdjusted\<close> event with SKU \<open>"X"\<close>, quantity -50 and adjustment type
  \<open>"returned"\<close>, applied when the store holds quantity 10 for \<open>"X"\<close> (in a table that
  respects its primary key) and the store does not fail, succeeds and leaves
  quantity -40 for \<open>"X"\<close>; so does \<open>processMessage\<close> on a message that decodes to
  that event.
\<close>

theorem inventory_return_scenario:
  assumes ev: "ia_SKU event = ''X''" "ia_Quantity event = - 50"
              "ia_AdjustmentType event = ''returned''"
      and st: "stock (store w) ''X'' = Some 10"
      and pk: "distinct (map inventory_sku (inventory (store w)))"
      and ok: "db_fault e 0 = None"
  shows "fst (UpsertInventory e event w) = None
         \<and> stock (store (snd (UpsertInventory e event w))) ''X'' = Some (- 40)
         \<and> (unmarshal_BaseEvent cd (msg_Value msg) = (b, None)
              \<and> EventType b = InventoryAdjustedEvent
              \<and> unmarshal_InventoryAdjusted cd (msg_Value msg) = Inr event
            \<longrightarrow> stock (store (processMessage cd e msg w)) ''X'' = Some (- 40))"
proof -
  from st obtain r where r: "find (\<lambda>r. inventory_sku r = ''X'') (inventory (store w)) = Some r"
      and q: "inventory_quantity r = 10"
    by (auto simp: stock_def)
  have delta: "sint (inventory_delta event) = - 50"
    using ev by (simp add: inventory_delta_def)
  have "fits_int32 (inventory_quantity r + (- 50))"
    by (simp add: q fits_int32_def)
  with r pk have viol: "inventory_violation ''X'' (- 50) (inventory (store w)) = None"
    by (intro inventory_violation_single) simp_all
  have run: "UpsertInventory e event w =
               (None, (gateway_enter ''UpsertInventory'' w)
                 \<lparr>store := (store w)\<lparr>inventory :=
                     merge_inventory (db_clock e) ''X'' (- 50) (inventory (store w))\<rparr>,
                  DBLatency := (DBLatency w)
                     (''upsert_inventory'' := Suc (DBLatency w ''upsert_inventory''))\<rparr>)"
    using ok viol ev(1) delta by (simp add: UpsertInventory_result exec_merge_inventory_def)
  have gw: "fst (UpsertInventory e event w) = None
            \<and> stock (store (snd (UpsertInventory e event w))) ''X'' = Some (- 40)"
    using st by (simp add: run stock_merge_inventory)
  then show ?thesis
    by (simp add: store_processMessage_inventory)
qed

theorem inventory_return_scenario_witness:
  "stock (store world_with_stock) ''X'' = Some 10
   \<and> fst (UpsertInventory (calm 900) returned_50 world_with_stock) = None
   \<and> stock (store (snd (UpsertInventory (calm 900) returned_50 world_with_stock))) ''X''
       = Some (- 40)
   \<and> stock (store (processMessage sample_codec (calm 900) (message body_returned_50 7)
                      world_with_stock)) ''X'' = Some (- 40)"
proof -
  have ev: "ia_SKU returned_50 = ''X''" "ia_Quantity returned_50 = - 50"
           "ia_AdjustmentType returned_50 = ''returned''"
    by (simp_all add: returned_50_def)
  have st: "stock (store world_with_stock) ''X'' = Some 10"
    by (simp add: world_with_stock_def fresh_world_def empty_db_def stock_def)
  have pk: "distinct (map inventory_sku (inventory (store world_with_stock)))"
    by (simp add: world_with_stock_def fresh_world_def empty_db_def)
  have ok: "db_fault (calm 900) 0 = None"
    by (simp add: calm_def)
  have dec: "unmarshal_BaseEvent sample_codec (msg_Value (message body_returned_50 7))
               = (\<lparr>EventID = ''evt-9'', EventType = InventoryAdjustedEvent, Timestamp = 900\<rparr>, None)
             \<and> EventType \<lparr>EventID = ''evt-9'', EventType = InventoryAdjustedEvent, Timestamp = 900\<rparr>
                 = InventoryAdjustedEvent
             \<and> unmarshal_InventoryAdjusted sample_codec (msg_Value (message body_returned_50 7))
                 = Inr returned_50"
    by (simp add: sample_codec_def message_def body_returned_50_def body_alice_def)
  from inventory_return_scenario [OF ev st pk ok, of sample_codec "message body_returned_50 7"
      "\<lparr>EventID = ''evt-9'', EventType = InventoryAdjustedEvent, Timestamp = 900\<rparr>"] dec st
  show ?thesis by blast
qed

subsection \<open>Users\<close>

lemma UpsertUser_result:
  "UpsertUser e event w =
     (case exec_merge_users (db_fault e 0) (db_clock e) event (store w) of
        Inl err \<Rightarrow>
          (Some (''failed to upsert user: '' @ err),
           (gateway_enter ''UpsertUser'' w)
             \<lparr>DBLatency := (DBLatency w)(''upsert_user'' := Suc (DBLatency w ''upsert_user''))\<rparr>)
      | Inr d \<Rightarrow>
          (None,
           (gateway_enter ''UpsertUser'' w)
             \<lparr>store := d,
              DBLatency := (DBLatency w)(''upsert_user'' := Suc (DBLatency w ''upsert_user''))\<rparr>))"
  by (simp add: UpsertUser_def observe_db_def gateway_enter_def Let_def split: sum.splits)

lemma UpsertUser_store:
  "store (snd (UpsertUser e event w)) =
     (if fst (UpsertUser e event w) = None
      then (store w)\<lparr>users := merge_users (db_clock e) event (users (store w))\<rparr>
      else store w)"
  by (simp add: UpsertUser_result exec_merge_users_def gateway_enter_def
           split: sum.splits option.splits)

lemma UpsertUser_ok_iff:
  "fst (UpsertUser e event w) = None \<longleftrightarrow>
     db_fault e 0 = None \<and> users_violation event (users (store w)) = None"
  by (simp add: UpsertUser_result exec_merge_users_def split: sum.splits option.splits)


lemma merge_users_created_at:
  "uc_UserID event \<in> set (map users_user_id tbl) \<Longrightarrow>
   map users_created_at (merge_users now event tbl) = map users_created_at tbl"
  unfolding merge_users_def by (induction tbl) auto








text \<open>
  C10. When the user id of the event matches a row, \<open>UpsertUser\<close> leaves the
  \<open>created_at\<close> column of the table as it was, whether it succeeds or not; when it
  succeeds, the matched row has its email, first name, last name and \<open>updated_at\<close>
  overwritten and every other row and column is unchanged.
\<close>

theorem UpsertUser_keeps_created_at:
  assumes "uc_UserID event \<in> set (map users_user_id (users (store w)))"
  shows "map users_created_at (users (store (snd (UpsertUser e event w))))
           = map users_created_at (users (store w))
         \<and> (fst (UpsertUser e event w) = None \<longrightarrow>
              users (store (snd (UpsertUser e event w)))
                = map (\<lambda>r. if users_user_id r = uc_UserID event
                            then r\<lparr>users_email := uc_Email event,
                                   users_first_name := uc_FirstName event,
                                   users_last_name := uc_LastName event,
                                   users_updated_at := db_clock e\<rparr>
                            else r) (users (store w)))"
proof -
  have "map users_created_at (users (store (snd (UpsertUser e event w))))
           = map users_created_at (users (store w))"
    using assms by (simp add: UpsertUser_store merge_users_created_at)
  moreover have "fst (UpsertUser e event w) = None \<Longrightarrow>
              users (store (snd (UpsertUser e event w)))
                = map (\<lambda>r. if users_user_id r = uc_UserID event
                            then r\<lparr>users_email := uc_Email event,
                                   users_first_name := uc_FirstName event,
                                   users_last_name := uc_LastName event,
                                   users_updated_at := db_clock e\<rparr>
                            else r) (users (store w))"
    using assms by (simp add: UpsertUser_store merge_users_def)
  ultimately show ?thesis by blast
qed

lemma users_world_with_alice:
  "users (store world_with_alice)
     = [\<lparr>users_user_id = ''user-1'', users_email = ''alice@example.com'',
         users_first_name = ''Alice'', users_last_name = ''Johnson'',
         users_created_at = 100, users_updated_at = 110\<rparr>]"
  by (simp add: world_with_alice_def UpsertUser_result exec_merge_users_def users_violation_def
        merge_users_def alice_def fresh_world_def empty_db_def calm_def gateway_enter_def)

lemma run_alice_renamed:
  "fst (UpsertUser (calm 700) alice_renamed world_with_alice) = None"
  by (simp add: UpsertUser_ok_iff users_world_with_alice users_violation_def alice_renamed_def
        calm_def)

theorem UpsertUser_keeps_created_at_witness:
  "uc_UserID alice_renamed \<in> set (map users_user_id (users (store world_with_alice)))
   \<and> uc_CreatedAt alice_renamed = 500
   \<and> fst (UpsertUser (calm 700) alice_renamed world_with_alice) = None
   \<and> users (store (snd (UpsertUser (calm 700) alice_renamed world_with_alice)))
       = [\<lparr>users_user_id = ''user-1'', users_email = ''alice.smith@example.com'',
           users_first_name = ''Alice'', users_last_name = ''Smith'',
           users_created_at = 100, users_updated_at = 700\<rparr>]"
proof -
  have hit: "uc_UserID alice_renamed \<in> set (map users_user_id (users (store world_with_alice)))"
    by (simp add: users_world_with_alice alice_renamed_def)
  have "users (store (snd (UpsertUser (calm 700) alice_renamed world_with_alice)))
       = [\<lparr>users_user_id = ''user-1'', users_email = ''alice.smith@example.com'',
           users_first_name = ''Alice'', users_last_name = ''Smith'',
           users_created_at = 100, users_updated_at = 700\<rparr>]"
    using UpsertUser_keeps_created_at [OF hit, of "calm 700"] run_alice_renamed
    by (simp add: users_world_with_alice alice_renamed_def calm_def)
  with hit run_alice_renamed show ?thesis
    by (simp add: alice_renamed_def)
qed

subsection \<open>Payments\<close>










subsection \<open>Re-delivery of user and payment events\<close>








subsection \<open>Orders and their line items\<close>




lemma merge_orders_ids:
  "map orders_order_id (merge_orders now event tbl) =
     (if op_OrderID event \<in> set (map orders_order_id tbl) then map orders_order_id tbl
      else map orders_order_id tbl @ [op_OrderID event])"
  unfolding merge_orders_def by (simp add: update_where_keys del: map_map)














subsection \<open>Re-delivery of the demo events\<close>




subsection \<open>The effect of the collaborators on the state\<close>

lemma gateway_calls_append [simp]:
  "gateway_calls (xs @ ys) = gateway_calls xs @ gateway_calls ys"
  by (induction xs rule: gateway_calls.induct) simp_all

lemma commits_append [simp]: "commits (xs @ ys) = commits xs @ commits ys"
  by (induction xs rule: commits.induct) simp_all

lemma pushes_append [simp]: "pushes (xs @ ys) = pushes xs @ pushes ys"
  by (induction xs rule: pushes.induct) simp_all

lemma UpsertOrder_frame:
  "snd (UpsertOrder e event w)
     = w\<lparr>store := store (snd (UpsertOrder e event w)),
         DBLatency := (DBLatency w)(''upsert_order'' := Suc (DBLatency w ''upsert_order'')),
         calls := calls w @ [GatewayCall ''UpsertOrder'']\<rparr>"
  by (simp add: UpsertOrder_def observe_db_def gateway_enter_def Let_def
           split: option.splits sum.splits)

lemma UpsertUser_frame:
  "snd (UpsertUser e event w)
     = w\<lparr>store := store (snd (UpsertUser e event w)),
         DBLatency := (DBLatency w)(''upsert_user'' := Suc (DBLatency w ''upsert_user'')),
         calls := calls w @ [GatewayCall ''UpsertUser'']\<rparr>"
  by (simp add: UpsertUser_def observe_db_def gateway_enter_def Let_def
           split: option.splits sum.splits)

lemma UpsertPayment_frame:
  "snd (UpsertPayment e event w)
     = w\<lparr>store := store (snd (UpsertPayment e event w)),
         DBLatency := (DBLatency w)(''upsert_payment'' := Suc (DBLatency w ''upsert_payment'')),
         calls := calls w @ [GatewayCall ''UpsertPayment'']\<rparr>"
  by (simp add: UpsertPayment_def observe_db_def gateway_enter_def Let_def
           split: option.splits sum.splits)

lemma UpsertInventory_frame:
  "snd (UpsertInventory e event w)
     = w\<lparr>store := store (snd (UpsertInventory e event w)),
         DBLatency := (DBLatency w)
            (''upsert_inventory'' := Suc (DBLatency w ''upsert_inventory'')),
         calls := calls w @ [GatewayCall ''UpsertInventory'']\<rparr>"
  by (simp add: UpsertInventory_def observe_db_def gateway_enter_def Let_def
           split: option.splits sum.splits)

text \<open>
  Whatever \<open>dispatch\<close> does, it adds at most one call to the journal, a gateway call,
  and touches nothing but the store, the gateway latency histogram and the journal.
\<close>

lemma handleUserCreated_cases:
  "(\<exists>ev. handleUserCreated cd e data i w = UpsertUser e ev w)
   \<or> (\<exists>err. handleUserCreated cd e data i w = (Some err, w))"
  by (cases "unmarshal_UserCreated cd data") (auto simp: handleUserCreated_def)

lemma handleOrderPlaced_cases:
  "(\<exists>ev. handleOrderPlaced cd e data i w = UpsertOrder e ev w)
   \<or> (\<exists>err. handleOrderPlaced cd e data i w = (Some err, w))"
  by (cases "unmarshal_OrderPlaced cd data") (auto simp: handleOrderPlaced_def)

lemma handlePaymentSettled_cases:
  "(\<exists>ev. handlePaymentSettled cd e data i w = UpsertPayment e ev w)
   \<or> (\<exists>err. handlePaymentSettled cd e data i w = (Some err, w))"
  by (cases "unmarshal_PaymentSettled cd data") (auto simp: handlePaymentSettled_def)

lemma handleInventoryAdjusted_cases:
  "(\<exists>ev. handleInventoryAdjusted cd e data i w = UpsertInventory e ev w)
   \<or> (\<exists>err. handleInventoryAdjusted cd e data i w = (Some err, w))"
  by (cases "unmarshal_InventoryAdjusted cd data") (auto simp: handleInventoryAdjusted_def)

lemma dispatch_cases:
  "(\<exists>ev. dispatch cd e b data w = UpsertUser e ev w)
   \<or> (\<exists>ev. dispatch cd e b data w = UpsertOrder e ev w)
   \<or> (\<exists>ev. dispatch cd e b data w = UpsertPayment e ev w)
   \<or> (\<exists>ev. dispatch cd e b data w = UpsertInventory e ev w)
   \<or> (\<exists>err. dispatch cd e b data w = (Some err, w))"
proof -
  consider "EventType b = UserCreatedEvent" | "EventType b = OrderPlacedEvent"
    | "EventType b = PaymentSettledEvent" | "EventType b = InventoryAdjustedEvent"
    | "EventType b \<notin> set known_event_types"
    by (auto simp: known_event_types_def)
  then show ?thesis
  proof cases
    case 1
    then have "dispatch cd e b data w = handleUserCreated cd e data (EventID b) w"
      by (simp add: dispatch_def)
    with handleUserCreated_cases [of cd e data "EventID b" w] show ?thesis
      by presburger
  next
    case 2
    then have "dispatch cd e b data w = handleOrderPlaced cd e data (EventID b) w"
      by (simp add: dispatch_def event_types_distinct)
    with handleOrderPlaced_cases [of cd e data "EventID b" w] show ?thesis
      by presburger
  next
    case 3
    then have "dispatch cd e b data w = handlePaymentSettled cd e data (EventID b) w"
      by (simp add: dispatch_def event_types_distinct)
    with handlePaymentSettled_cases [of cd e data "EventID b" w] show ?thesis
      by presburger
  next
    case 4
    then have "dispatch cd e b data w = handleInventoryAdjusted cd e data (EventID b) w"
      by (simp add: dispatch_def event_types_distinct)
    with handleInventoryAdjusted_cases [of cd e data "EventID b" w] show ?thesis
      by presburger
  next
    case 5
    then have "dispatch cd e b data w = (Some (''unknown event type: '' @ EventType b), w)"
      by (simp add: dispatch_def known_event_types_def)
    then show ?thesis by simp
  qed
qed

lemma dispatch_frame:
  "\<exists>d lat g. length g \<le> 1
     \<and> snd (dispatch cd e b data w)
         = w\<lparr>store := d, DBLatency := lat, calls := calls w @ map GatewayCall g\<rparr>"
proof -
  have op: "\<exists>d lat g. length g \<le> 1
              \<and> w' = w\<lparr>store := d, DBLatency := lat, calls := calls w @ map GatewayCall g\<rparr>"
    if "w' = w\<lparr>store := d0, DBLatency := lat0, calls := calls w @ [GatewayCall n]\<rparr>"
    for w' d0 lat0 n
    using that by (intro exI [of _ d0] exI [of _ lat0] exI [of _ "[n]"]) simp
  from dispatch_cases [of cd e b data w] show ?thesis
  proof (elim disjE exE)
    fix ev assume "dispatch cd e b data w = UpsertUser e ev w"
    then show ?thesis by (simp only:) (rule op [OF UpsertUser_frame])
  next
    fix ev assume "dispatch cd e b data w = UpsertOrder e ev w"
    then show ?thesis by (simp only:) (rule op [OF UpsertOrder_frame])
  next
    fix ev assume "dispatch cd e b data w = UpsertPayment e ev w"
    then show ?thesis by (simp only:) (rule op [OF UpsertPayment_frame])
  next
    fix ev assume "dispatch cd e b data w = UpsertInventory e ev w"
    then show ?thesis by (simp only:) (rule op [OF UpsertInventory_frame])
  next
    fix err assume "dispatch cd e b data w = (Some err, w)"
    then show ?thesis
      by (intro exI [of _ "store w"] exI [of _ "DBLatency w"] exI [of _ "[]"]) simp
  qed
qed

subsection \<open>\<open>processMessage\<close>, path by path\<close>

lemma sendToDLQ_eq:
  "sendToDLQ e i d m w
     = w\<lparr>sink := (if push_succeeds e
                   then sink w @ [\<lparr>dq_EventID = to_valid_utf8 i,
                                   dq_OriginalData = to_valid_utf8 d,
                                   dq_Error = to_valid_utf8 m,
                                   dq_Timestamp = dlq_clock e, dq_RetryCount = 0\<rparr>]
                   else sink w),
         DLQCount := (if push_succeeds e then Suc (DLQCount w) else DLQCount w),
         calls := calls w @ [SinkPush i d m]\<rparr>"
  by (simp add: sendToDLQ_def Push_def marshal_DLQEntry_def push_succeeds_def Let_def
          split: option.splits)

lemma CommitMessage_eq:
  "snd (CommitMessage e msg w)
     = w\<lparr>committed := (if commit_fault e = None
                        then (committed w)(msg_Partition msg := Some (Suc (msg_Offset msg)))
                        else committed w),
         calls := calls w @ [OffsetCommit (msg_Partition msg) (msg_Offset msg)]\<rparr>"
  by (simp add: CommitMessage_def Let_def split: option.splits)

lemma processMessage_envelope_failure:
  assumes "unmarshal_BaseEvent cd (msg_Value msg) = (b, Some perr)"
  shows "processMessage cd e msg w
     = w\<lparr>sink := (if push_succeeds e
                   then sink w @ [\<lparr>dq_EventID = to_valid_utf8 (EventID b),
                                   dq_OriginalData = to_valid_utf8 (msg_Value msg),
                                   dq_Error = to_valid_utf8 (''Failed to parse base event: '' @ perr),
                                   dq_Timestamp = dlq_clock e, dq_RetryCount = 0\<rparr>]
                   else sink w),
         DLQCount := (if push_succeeds e then Suc (DLQCount w) else DLQCount w),
         KafkaConsumeLatency := Suc (KafkaConsumeLatency w),
         committed := (if commit_fault e = None
                        then (committed w)(msg_Partition msg := Some (Suc (msg_Offset msg)))
                        else committed w),
         calls := calls w @ [SinkPush (EventID b) (msg_Value msg)
                               (''Failed to parse base event: '' @ perr),
                             OffsetCommit (msg_Partition msg) (msg_Offset msg)]\<rparr>"
  using assms
  by (simp add: processMessage_def sendToDLQ_eq CommitMessage_eq observe_consume_def)

lemma processMessage_failure:
  assumes "unmarshal_BaseEvent cd (msg_Value msg) = (b, None)"
      and "dispatch cd e b (msg_Value msg) w = (Some err, w1)"
  shows "processMessage cd e msg w
     = w1\<lparr>sink := (if push_succeeds e
                   then sink w1 @ [\<lparr>dq_EventID = to_valid_utf8 (EventID b),
                                   dq_OriginalData = to_valid_utf8 (msg_Value msg),
                                   dq_Error = to_valid_utf8 err,
                                   dq_Timestamp = dlq_clock e, dq_RetryCount = 0\<rparr>]
                   else sink w1),
         MessagesProcessed := (MessagesProcessed w1)
            ((EventType b, ''error'') := Suc (MessagesProcessed w1 (EventType b, ''error''))),
         DLQCount := (if push_succeeds e then Suc (DLQCount w1) else DLQCount w1),
         KafkaConsumeLatency := Suc (KafkaConsumeLatency w1),
         committed := (if commit_fault e = None
                        then (committed w1)(msg_Partition msg := Some (Suc (msg_Offset msg)))
                        else committed w1),
         calls := calls w1 @ [SinkPush (EventID b) (msg_Value msg) err,
                             OffsetCommit (msg_Partition msg) (msg_Offset msg)]\<rparr>"
  using assms
  by (simp add: processMessage_def sendToDLQ_eq CommitMessage_eq observe_consume_def
        inc_MessagesProcessed_def Let_def)

lemma processMessage_success:
  assumes "unmarshal_BaseEvent cd (msg_Value msg) = (b, None)"
      and "dispatch cd e b (msg_Value msg) w = (None, w1)"
  shows "processMessage cd e msg w
     = w1\<lparr>MessagesProcessed := (MessagesProcessed w1)
            ((EventType b, ''success'') := Suc (MessagesProcessed w1 (EventType b, ''success''))),
         KafkaConsumeLatency := Suc (KafkaConsumeLatency w1),
         processedCount := (processedCount w1)
            (EventType b := Some ((case processedCount w1 (EventType b) of
                                     None \<Rightarrow> 0 | Some n \<Rightarrow> n) + 1)),
         committed := (if commit_fault e = None
                        then (committed w1)(msg_Partition msg := Some (Suc (msg_Offset msg)))
                        else committed w1),
         calls := calls w1 @ [OffsetCommit (msg_Partition msg) (msg_Offset msg)]\<rparr>"
  using assms
  by (simp add: processMessage_def CommitMessage_eq observe_consume_def
        inc_MessagesProcessed_def inc_processedCount_def Let_def)

lemma dispatch_unknown:
  "EventType b \<notin> set known_event_types \<Longrightarrow>
   dispatch cd e b data w = (Some (''unknown event type: '' @ EventType b), w)"
  by (simp add: dispatch_def known_event_types_def)



subsection \<open>Decode failures and unknown event types\<close>

lemma sample_bodies_distinct:
  "body_garbage \<noteq> body_alice" "body_garbage \<noteq> body_returned_50"
  "body_garbage \<noteq> body_unknown" "body_garbage \<noteq> body_bad_order"
  "body_bad_order \<noteq> body_alice" "body_bad_order \<noteq> body_returned_50"
  "body_bad_order \<noteq> body_unknown" "body_unknown \<noteq> body_alice"
  "body_unknown \<noteq> body_returned_50" "body_returned_50 \<noteq> body_alice"
  by (simp_all add: body_garbage_def body_alice_def body_returned_50_def body_unknown_def
        body_bad_order_def)

lemma decode_garbage:
  "unmarshal_BaseEvent sample_codec body_garbage = (zero_BaseEvent, Some ''invalid character'')"
  by (simp add: sample_codec_def sample_bodies_distinct)

lemma decode_unknown:
  "unmarshal_BaseEvent sample_codec body_unknown
     = (\<lparr>EventID = ''test-456'', EventType = ''UnknownEvent'', Timestamp = 0\<rparr>, None)"
  by (simp add: sample_codec_def sample_bodies_distinct)


lemma decode_alice:
  "unmarshal_BaseEvent sample_codec body_alice
     = (\<lparr>EventID = ''evt-1'', EventType = UserCreatedEvent, Timestamp = 100\<rparr>, None)"
  "unmarshal_UserCreated sample_codec body_alice = Inr alice"
  by (simp_all add: sample_codec_def)

lemma unknown_not_known: "''UnknownEvent'' \<notin> set known_event_types"
  by (simp add: known_event_types_def UserCreatedEvent_def OrderPlacedEvent_def
        PaymentSettledEvent_def InventoryAdjustedEvent_def)

lemma fresh_world_fields:
  "store fresh_world = empty_db" "sink fresh_world = []" "calls fresh_world = []"
  "MessagesProcessed fresh_world = (\<lambda>l. 0)" "DLQCount fresh_world = 0"
  "MessagesProcessedPerSecond fresh_world = (\<lambda>l. None)"
  "processedCount fresh_world = (\<lambda>l. None)" "committed fresh_world = (\<lambda>p. None)"
  "DBLatency fresh_world = (\<lambda>l. 0)" "KafkaConsumeLatency fresh_world = 0"
  by (simp_all add: fresh_world_def)

lemma calm_fields:
  "db_clock (calm t) = t" "db_fault (calm t) k = None" "dlq_clock (calm t) = t"
  "dlq_marshal_fault (calm t) = None" "dlq_fault (calm t) = None"
  "commit_fault (calm t) = None"
  by (simp_all add: calm_def)


lemma message_fields:
  "msg_Value (message body off) = body" "msg_Partition (message body off) = 0"
  "msg_Offset (message body off) = off"
  by (simp_all add: message_def)







subsection \<open>The offset commit\<close>

lemma journal_of_gateway_calls [simp]:
  "commits (map GatewayCall g) = []" "pushes (map GatewayCall g) = []"
  "gateway_calls (map GatewayCall g) = g"
  by (induction g) simp_all

lemma dispatch_result:
  obtains err d lat g where
    "dispatch cd e b data w
       = (err, w\<lparr>store := d, DBLatency := lat, calls := calls w @ map GatewayCall g\<rparr>)"
    and "length g \<le> 1"
proof -
  from dispatch_frame [of cd e b data w] obtain d lat g where
    "length g \<le> 1" and
    "snd (dispatch cd e b data w)
       = w\<lparr>store := d, DBLatency := lat, calls := calls w @ map GatewayCall g\<rparr>"
    by blast
  then have "dispatch cd e b data w
       = (fst (dispatch cd e b data w),
          w\<lparr>store := d, DBLatency := lat, calls := calls w @ map GatewayCall g\<rparr>)"
    by (metis prod.collapse)
  with \<open>length g \<le> 1\<close> show thesis
    by (rule that [rotated])
qed

lemma processMessage_broker_state:
  "position (processMessage cd e msg w) = position w"
  "topic (processMessage cd e msg w) = topic w"
proof -
  obtain b perr where base: "unmarshal_BaseEvent cd (msg_Value msg) = (b, perr)"
    by (cases "unmarshal_BaseEvent cd (msg_Value msg)")
  obtain err d lat g where
    r: "dispatch cd e b (msg_Value msg) w
          = (err, w\<lparr>store := d, DBLatency := lat, calls := calls w @ map GatewayCall g\<rparr>)"
    by (rule dispatch_result)
  have "position (processMessage cd e msg w) = position w
        \<and> topic (processMessage cd e msg w) = topic w"
  proof (cases perr)
    case (Some pe)
    with base have "unmarshal_BaseEvent cd (msg_Value msg) = (b, Some pe)"
      by simp
    then show ?thesis
      by (simp add: processMessage_envelope_failure)
  next
    case None
    with base have b0: "unmarshal_BaseEvent cd (msg_Value msg) = (b, None)"
      by simp
    show ?thesis
    proof (cases err)
      case None
      show ?thesis
        by (simp add: processMessage_success [OF b0 r [unfolded None]])
    next
      case (Some m)
      show ?thesis
        by (simp add: processMessage_failure [OF b0 r [unfolded Some]])
    qed
  qed
  then show "position (processMessage cd e msg w) = position w"
    and "topic (processMessage cd e msg w) = topic w"
    by simp_all
qed

lemma consumer_ReadMessage_Some:
  assumes "consumer_ReadMessage p v = (Some msg, w)"
  shows "msg_Partition msg = p" "msg_Offset msg = position v p"
    and "position w p = Suc (position v p)"
  using assms by (auto simp: consumer_ReadMessage_def split: if_splits)

lemma consumer_ReadMessage_delivers:
  "fst (consumer_ReadMessage q w) = Some m \<Longrightarrow>
   msg_Partition m = q \<and> msg_Offset m = position w q"
  by (auto simp: consumer_ReadMessage_def split: if_splits)

lemma Start_poll_position:
  "position w q \<le> position (Start_poll cd e p w) q"
  by (simp add: Start_poll_def consumer_ReadMessage_def processMessage_broker_state)

lemma delivered_offsets:
  "m \<in> set (delivered cd polls w) \<Longrightarrow> position w (msg_Partition m) \<le> msg_Offset m"
proof (induction polls arbitrary: w)
  case Nil
  then show ?case
    by simp
next
  case (Cons a polls)
  obtain e p where a: "a = (e, p)"
    by (cases a)
  from Cons.prems a consider "fst (consumer_ReadMessage p w) = Some m"
    | "m \<in> set (delivered cd polls (Start_poll cd e p w))"
    by (auto split: option.splits)
  then show ?case
  proof cases
    case 1
    from consumer_ReadMessage_delivers [OF 1] show ?thesis
      by simp
  next
    case 2
    from Cons.IH [OF 2] Start_poll_position [of w "msg_Partition m" cd e p] show ?thesis
      by simp
  qed
qed

lemma not_delivered_again:
  assumes "consumer_ReadMessage p v = (Some msg, w)"
  shows "fst (consumer_ReadMessage q (processMessage cd e msg w)) \<noteq> Some msg"
    and "fst (consumer_ReadMessage p (processMessage cd e msg w)) = Some m
           \<Longrightarrow> msg_Offset m = Suc (msg_Offset msg)"
    and "msg \<notin> set (delivered cd polls (processMessage cd e msg w))"
proof -
  note r = consumer_ReadMessage_Some [OF assms]
  have pos: "position (processMessage cd e msg w) (msg_Partition msg) = Suc (msg_Offset msg)"
    using r by (simp add: processMessage_broker_state)
  show "fst (consumer_ReadMessage q (processMessage cd e msg w)) \<noteq> Some msg"
  proof
    assume "fst (consumer_ReadMessage q (processMessage cd e msg w)) = Some msg"
    from consumer_ReadMessage_delivers [OF this] pos show False
      by simp
  qed
  show "msg_Offset m = Suc (msg_Offset msg)"
    if "fst (consumer_ReadMessage p (processMessage cd e msg w)) = Some m"
    using consumer_ReadMessage_delivers [OF that] pos r by simp
  show "msg \<notin> set (delivered cd polls (processMessage cd e msg w))"
  proof
    assume "msg \<in> set (delivered cd polls (processMessage cd e msg w))"
    from delivered_offsets [OF this] pos show False
      by simp
  qed
qed

lemma delivered_distinct:
  "distinct (delivered cd polls w)"
proof (induction polls arbitrary: w)
  case Nil
  show ?case
    by simp
next
  case (Cons a polls)
  obtain e p where a: "a = (e, p)"
    by (cases a)
  show ?case
  proof (cases "fst (consumer_ReadMessage p w)")
    case None
    then show ?thesis
      by (simp add: a Cons.IH)
  next
    case (Some m)
    then obtain w1 where r: "consumer_ReadMessage p w = (Some m, w1)"
      by (metis prod.collapse)
    then have "Start_poll cd e p w = processMessage cd e m w1"
      by (simp add: Start_poll_def)
    with not_delivered_again(3) [OF r, of cd polls e] Some show ?thesis
      by (simp add: a Cons.IH)
  qed
qed

text \<open>
  C6. On every path through \<open>processMessage\<close>, whatever the decoders return and
  whichever calls fail, the calls made for the message are those of its disposition
  (at most one gateway call and at most one push, none of them a commit) followed by
  exactly one commit of the message's own partition and offset, which is the last
  call. When the broker accepts the commit, the offset committed for the partition
  is the one after the message; when the broker rejects the commit, the committed
  offsets are unchanged. \<open>processMessage\<close> leaves the position of the consumer handle
  where the poll that delivered the message has put it, past the message. Hence a
  message that a poll has delivered and \<open>processMessage\<close> has handled is not
  delivered again to this instance, by the next poll or by any later one, from
  whichever partitions they are served, also when its commit was rejected; the
  next message from its partition is the one at the following offset. No run of
  polls delivers a message twice.
\<close>

theorem offset_commit_on_every_path:
  "(\<exists>disposition.
       calls (processMessage cd e msg w)
         = calls w @ disposition @ [OffsetCommit (msg_Partition msg) (msg_Offset msg)]
       \<and> commits disposition = []
       \<and> length (gateway_calls disposition) \<le> 1 \<and> length (pushes disposition) \<le> 1)
   \<and> commits (calls (processMessage cd e msg w))
       = commits (calls w) @ [(msg_Partition msg, msg_Offset msg)]
   \<and> last (calls (processMessage cd e msg w))
       = OffsetCommit (msg_Partition msg) (msg_Offset msg)
   \<and> committed (processMessage cd e msg w)
       = (if commit_fault e = None
          then (committed w)(msg_Partition msg := Some (Suc (msg_Offset msg)))
          else committed w)
   \<and> position (processMessage cd e msg w) = position w
   \<and> topic (processMessage cd e msg w) = topic w
   \<and> (consumer_ReadMessage p v = (Some msg, w) \<longrightarrow>
        (\<forall>q. fst (consumer_ReadMessage q (processMessage cd e msg w)) \<noteq> Some msg)
        \<and> (\<forall>m. fst (consumer_ReadMessage p (processMessage cd e msg w)) = Some m
                 \<longrightarrow> msg_Offset m = Suc (msg_Offset msg))
        \<and> msg \<notin> set (delivered cd polls (processMessage cd e msg w)))
   \<and> distinct (delivered cd polls v)"
proof -
  let ?c = "OffsetCommit (msg_Partition msg) (msg_Offset msg)"
  have shape: "\<exists>disposition.
       calls (processMessage cd e msg w) = calls w @ disposition @ [?c]
       \<and> commits disposition = []
       \<and> length (gateway_calls disposition) \<le> 1 \<and> length (pushes disposition) \<le> 1"
    and com: "committed (processMessage cd e msg w)
       = (if commit_fault e = None
          then (committed w)(msg_Partition msg := Some (Suc (msg_Offset msg)))
          else committed w)"
  proof -
    obtain b perr where base: "unmarshal_BaseEvent cd (msg_Value msg) = (b, perr)"
      by (cases "unmarshal_BaseEvent cd (msg_Value msg)")
    obtain err d lat g where
      r: "dispatch cd e b (msg_Value msg) w
            = (err, w\<lparr>store := d, DBLatency := lat, calls := calls w @ map GatewayCall g\<rparr>)"
      and "length g \<le> 1"
      by (rule dispatch_result)
    then have g: "length g \<le> Suc 0"
      by simp
    have "(\<exists>disposition.
       calls (processMessage cd e msg w) = calls w @ disposition @ [?c]
       \<and> commits disposition = []
       \<and> length (gateway_calls disposition) \<le> 1 \<and> length (pushes disposition) \<le> 1)
       \<and> committed (processMessage cd e msg w)
       = (if commit_fault e = None
          then (committed w)(msg_Partition msg := Some (Suc (msg_Offset msg)))
          else committed w)"
    proof (cases perr)
      case (Some pe)
      with base have "unmarshal_BaseEvent cd (msg_Value msg) = (b, Some pe)"
        by simp
      note eq = processMessage_envelope_failure [OF this, of e w]
      have "calls (processMessage cd e msg w)
              = calls w @ [SinkPush (EventID b) (msg_Value msg)
                             (''Failed to parse base event: '' @ pe)] @ [?c]"
        by (simp add: eq)
      then show ?thesis
        by (intro conjI exI [of _ "[SinkPush (EventID b) (msg_Value msg)
                             (''Failed to parse base event: '' @ pe)]"])
           (simp_all add: eq)
    next
      case None
      with base have b0: "unmarshal_BaseEvent cd (msg_Value msg) = (b, None)"
        by simp
      show ?thesis
      proof (cases err)
        case None
        note eq = processMessage_success [OF b0 r [unfolded None], of ]
        show ?thesis
          by (intro conjI exI [of _ "map GatewayCall g"]) (simp_all add: eq g)
      next
        case (Some m)
        note eq = processMessage_failure [OF b0 r [unfolded Some]]
        show ?thesis
          by (intro conjI exI [of _ "map GatewayCall g @ [SinkPush (EventID b) (msg_Value msg) m]"])
             (simp_all add: eq g)
      qed
    qed
    then show "\<exists>disposition.
       calls (processMessage cd e msg w) = calls w @ disposition @ [?c]
       \<and> commits disposition = []
       \<and> length (gateway_calls disposition) \<le> 1 \<and> length (pushes disposition) \<le> 1"
      and "committed (processMessage cd e msg w)
       = (if commit_fault e = None
          then (committed w)(msg_Partition msg := Some (Suc (msg_Offset msg)))
          else committed w)"
      by blast+
  qed
  from shape obtain disposition where
    c: "calls (processMessage cd e msg w) = calls w @ disposition @ [?c]"
    and n: "commits disposition = []"
    by blast
  have "commits (calls (processMessage cd e msg w))
          = commits (calls w) @ [(msg_Partition msg, msg_Offset msg)]"
    by (simp add: c n)
  moreover have "last (calls (processMessage cd e msg w)) = ?c"
    by (simp add: c)
  moreover have "consumer_ReadMessage p v = (Some msg, w) \<longrightarrow>
        (\<forall>q. fst (consumer_ReadMessage q (processMessage cd e msg w)) \<noteq> Some msg)
        \<and> (\<forall>m. fst (consumer_ReadMessage p (processMessage cd e msg w)) = Some m
                 \<longrightarrow> msg_Offset m = Suc (msg_Offset msg))
        \<and> msg \<notin> set (delivered cd polls (processMessage cd e msg w))"
    using not_delivered_again [of p v msg w] by blast
  ultimately show ?thesis
    using shape com processMessage_broker_state [of cd e msg w]
      delivered_distinct [of cd polls v]
    by blast
qed

lemma broker_down_fields:
  "db_clock (broker_down t) = t" "db_fault (broker_down t) k = None"
  "dlq_clock (broker_down t) = t" "dlq_marshal_fault (broker_down t) = None"
  "dlq_fault (broker_down t) = None"
  "commit_fault (broker_down t) = Some ''broker unavailable''"
  by (simp_all add: broker_down_def calm_def)

lemma world_polled_fields:
  "consumer_ReadMessage 0 world_with_topic = (Some (message body_garbage 0), world_polled)"
  "committed world_polled = (\<lambda>p. None)" "calls world_polled = []"
  "position world_polled 0 = 1" "topic world_polled 0 = [body_garbage, body_alice]"
  by (simp_all add: world_polled_def consumer_ReadMessage_def world_with_topic_def
        fresh_world_def message_def)

theorem offset_commit_on_every_path_witness:
  "commits (calls (processMessage sample_codec (calm 110) (message body_alice 7) fresh_world))
     = [(0, 7)]
   \<and> last (calls (processMessage sample_codec (calm 110) (message body_alice 7) fresh_world))
       = OffsetCommit 0 7
   \<and> committed (processMessage sample_codec (calm 110) (message body_alice 7) fresh_world) 0
       = Some 8
   \<and> commits (calls (processMessage sample_codec (broker_down 5) (message body_garbage 8)
                       fresh_world)) = [(0, 8)]
   \<and> committed (processMessage sample_codec (broker_down 5) (message body_garbage 8)
                  fresh_world) 0 = None
   \<and> consumer_ReadMessage 0 world_with_topic = (Some (message body_garbage 0), world_polled)
   \<and> commits (calls (processMessage sample_codec (broker_down 5) (message body_garbage 0)
                       world_polled)) = [(0, 0)]
   \<and> committed (processMessage sample_codec (broker_down 5) (message body_garbage 0)
                  world_polled) 0 = None
   \<and> fst (consumer_ReadMessage 0
             (processMessage sample_codec (broker_down 5) (message body_garbage 0) world_polled))
       = Some (message body_alice 1)
   \<and> message body_garbage 0
       \<notin> set (delivered sample_codec [(calm 6, 0), (calm 7, 0)]
                (processMessage sample_codec (broker_down 5) (message body_garbage 0)
                   world_polled))"
proof -
  note a = offset_commit_on_every_path [where cd = sample_codec and e = "calm 110"
      and msg = "message body_alice 7" and w = fresh_world]
  note b = offset_commit_on_every_path [where cd = sample_codec and e = "broker_down 5"
      and msg = "message body_garbage 8" and w = fresh_world]
  note c = offset_commit_on_every_path [where cd = sample_codec and e = "broker_down 5"
      and msg = "message body_garbage 0" and w = world_polled and p = 0
      and v = world_with_topic and polls = "[(calm 6, 0), (calm 7, 0)]"]
  from a have 1: "commits (calls (processMessage sample_codec (calm 110) (message body_alice 7)
        fresh_world)) = [(0, 7)]"
    and 2: "last (calls (processMessage sample_codec (calm 110) (message body_alice 7)
        fresh_world)) = OffsetCommit 0 7"
    and 3: "committed (processMessage sample_codec (calm 110) (message body_alice 7)
        fresh_world) 0 = Some 8"
    by (simp_all add: fresh_world_fields calm_fields message_fields)
  from b have 4: "commits (calls (processMessage sample_codec (broker_down 5)
        (message body_garbage 8) fresh_world)) = [(0, 8)]"
    and 5: "committed (processMessage sample_codec (broker_down 5) (message body_garbage 8)
        fresh_world) 0 = None"
    by (simp_all add: fresh_world_fields broker_down_fields message_fields)
  from c have 6: "commits (calls (processMessage sample_codec (broker_down 5)
        (message body_garbage 0) world_polled)) = [(0, 0)]"
    and 7: "committed (processMessage sample_codec (broker_down 5) (message body_garbage 0)
        world_polled) 0 = None"
    by (simp_all add: world_polled_fields broker_down_fields message_fields)
  from c have 8: "message body_garbage 0
       \<notin> set (delivered sample_codec [(calm 6, 0), (calm 7, 0)]
                (processMessage sample_codec (broker_down 5) (message body_garbage 0)
                   world_polled))"
    using world_polled_fields(1) by blast
  from c have "position (processMessage sample_codec (broker_down 5) (message body_garbage 0)
        world_polled) = position world_polled"
    and "topic (processMessage sample_codec (broker_down 5) (message body_garbage 0)
        world_polled) = topic world_polled"
    by blast+
  then have 9: "fst (consumer_ReadMessage 0
             (processMessage sample_codec (broker_down 5) (message body_garbage 0) world_polled))
       = Some (message body_alice 1)"
    by (simp add: consumer_ReadMessage_def world_polled_fields message_def)
  from 1 2 3 4 5 6 7 8 9 world_polled_fields(1) show ?thesis
    by blast
qed

subsection \<open>Failure dispositions\<close>

text \<open>
  C7 (as amended). When the envelope does not decode, \<open>processMessage\<close> pushes one
  failure record (with the event id as far as it was decoded). When the envelope
  decodes and the dispatch fails, for an unknown event type, a payload that does not
  decode or a failed gateway operation, it pushes one failure record with the error
  text and increments the processed counter labelled with the envelope's event type
  exactly as received and the status \<open>error\<close>; for an unknown event type that label
  is the unknown type itself.
\<close>

theorem failure_disposition_effects:
  "(unmarshal_BaseEvent cd (msg_Value msg) = (b, Some perr) \<longrightarrow>
      pushes (calls (processMessage cd e msg w))
        = pushes (calls w) @ [(EventID b, msg_Value msg, ''Failed to parse base event: '' @ perr)])
   \<and> (unmarshal_BaseEvent cd (msg_Value msg) = (b, None)
        \<and> fst (dispatch cd e b (msg_Value msg) w) = Some err \<longrightarrow>
      pushes (calls (processMessage cd e msg w))
        = pushes (calls w) @ [(EventID b, msg_Value msg, err)]
      \<and> MessagesProcessed (processMessage cd e msg w)
        = (MessagesProcessed w)
            ((EventType b, ''error'') := Suc (MessagesProcessed w (EventType b, ''error''))))
   \<and> (EventType b \<notin> set known_event_types \<longrightarrow>
      fst (dispatch cd e b (msg_Value msg) w) = Some (''unknown event type: '' @ EventType b))"
proof -
  have envelope: "pushes (calls (processMessage cd e msg w))
        = pushes (calls w) @ [(EventID b, msg_Value msg, ''Failed to parse base event: '' @ perr)]"
    if "unmarshal_BaseEvent cd (msg_Value msg) = (b, Some perr)"
    by (simp add: processMessage_envelope_failure [OF that])
  have failed: "pushes (calls (processMessage cd e msg w))
        = pushes (calls w) @ [(EventID b, msg_Value msg, err)]
      \<and> MessagesProcessed (processMessage cd e msg w)
        = (MessagesProcessed w)
            ((EventType b, ''error'') := Suc (MessagesProcessed w (EventType b, ''error'')))"
    if base: "unmarshal_BaseEvent cd (msg_Value msg) = (b, None)"
      and f: "fst (dispatch cd e b (msg_Value msg) w) = Some err"
  proof -
    obtain r d lat g where
      r: "dispatch cd e b (msg_Value msg) w
            = (r, w\<lparr>store := d, DBLatency := lat, calls := calls w @ map GatewayCall g\<rparr>)"
      by (rule dispatch_result)
    with f have "r = Some err"
      by simp
    with r show ?thesis
      by (simp add: processMessage_failure [OF base])
  qed
  have unknown: "fst (dispatch cd e b (msg_Value msg) w)
                   = Some (''unknown event type: '' @ EventType b)"
    if "EventType b \<notin> set known_event_types"
    by (simp add: dispatch_unknown [OF that])
  from envelope failed unknown show ?thesis
    by blast
qed

lemma store_down_fields:
  "db_clock (store_down t) = t" "db_fault (store_down t) k = Some ''connection reset''"
  "dlq_clock (store_down t) = t" "dlq_marshal_fault (store_down t) = None"
  "dlq_fault (store_down t) = None" "commit_fault (store_down t) = None"
  by (simp_all add: store_down_def calm_def)

lemma dispatch_alice:
  "dispatch sample_codec e \<lparr>EventID = ''evt-1'', EventType = UserCreatedEvent, Timestamp = 100\<rparr>
     body_alice w = UpsertUser e alice w"
  by (simp add: dispatch_def handleUserCreated_def decode_alice)

lemma alice_accepted:
  "store w = empty_db \<Longrightarrow> fst (UpsertUser (calm t) alice w) = None"
  by (simp add: UpsertUser_ok_iff calm_fields users_violation_def alice_def empty_db_def)

lemma alice_refused:
  "fst (UpsertUser (store_down t) alice w) = Some ''failed to upsert user: connection reset''"
  by (simp add: UpsertUser_result exec_merge_users_def store_down_fields)

theorem failure_disposition_effects_witness:
  "pushes (calls (processMessage sample_codec (calm 5) (message body_garbage 3) fresh_world))
     = [([], body_garbage, ''Failed to parse base event: invalid character'')]
   \<and> pushes (calls (processMessage sample_codec (calm 5) (message body_unknown 4) fresh_world))
       = [(''test-456'', body_unknown, ''unknown event type: UnknownEvent'')]
   \<and> MessagesProcessed (processMessage sample_codec (calm 5) (message body_unknown 4) fresh_world)
        (''UnknownEvent'', ''error'') = 1
   \<and> pushes (calls (processMessage sample_codec (store_down 6) (message body_alice 5) fresh_world))
       = [(''evt-1'', body_alice, ''failed to upsert user: connection reset'')]
   \<and> MessagesProcessed (processMessage sample_codec (store_down 6) (message body_alice 5)
                          fresh_world) (UserCreatedEvent, ''error'') = 1"
proof -
  let ?u = "\<lparr>EventID = ''test-456'', EventType = ''UnknownEvent'', Timestamp = 0\<rparr>"
  let ?a = "\<lparr>EventID = ''evt-1'', EventType = UserCreatedEvent, Timestamp = 100\<rparr>"
  have g: "unmarshal_BaseEvent sample_codec (msg_Value (message body_garbage 3))
             = (zero_BaseEvent, Some ''invalid character'')"
    by (simp add: message_fields decode_garbage)
  have u: "unmarshal_BaseEvent sample_codec (msg_Value (message body_unknown 4)) = (?u, None)"
    by (simp add: message_fields decode_unknown)
  have uk: "EventType ?u \<notin> set known_event_types"
    using unknown_not_known by simp
  have a: "unmarshal_BaseEvent sample_codec (msg_Value (message body_alice 5)) = (?a, None)"
    by (simp add: message_fields decode_alice)
  have af: "fst (dispatch sample_codec (store_down 6) ?a (msg_Value (message body_alice 5))
                   fresh_world) = Some ''failed to upsert user: connection reset''"
    by (simp add: message_fields dispatch_alice alice_refused)
  note t1 = failure_disposition_effects [of sample_codec "message body_garbage 3"
      zero_BaseEvent "''invalid character''" "calm 5" fresh_world]
  note t2 = failure_disposition_effects [of sample_codec "message body_unknown 4" ?u _
      "calm 5" fresh_world "''unknown event type: UnknownEvent''"]
  note t3 = failure_disposition_effects [of sample_codec "message body_alice 5" ?a _
      "store_down 6" fresh_world "''failed to upsert user: connection reset''"]
  from t1 g have p1:
    "pushes (calls (processMessage sample_codec (calm 5) (message body_garbage 3) fresh_world))
       = [([], body_garbage, ''Failed to parse base event: invalid character'')]"
    by (simp add: fresh_world_fields message_fields zero_BaseEvent_def)
  from t2 u uk have p2:
    "pushes (calls (processMessage sample_codec (calm 5) (message body_unknown 4) fresh_world))
       = [(''test-456'', body_unknown, ''unknown event type: UnknownEvent'')]
     \<and> MessagesProcessed (processMessage sample_codec (calm 5) (message body_unknown 4)
          fresh_world) (''UnknownEvent'', ''error'') = 1"
    by (simp add: fresh_world_fields message_fields)
  from t3 a af have p3:
    "pushes (calls (processMessage sample_codec (store_down 6) (message body_alice 5) fresh_world))
       = [(''evt-1'', body_alice, ''failed to upsert user: connection reset'')]
     \<and> MessagesProcessed (processMessage sample_codec (store_down 6) (message body_alice 5)
          fresh_world) (UserCreatedEvent, ''error'') = 1"
    by (simp add: fresh_world_fields message_fields)
  from p1 p2 p3 show ?thesis
    by blast
qed

text \<open>
  C7 as stated fails. A body that does not decode as the envelope is pushed to the
  dead-letter queue, but no processed counter is incremented for it. And for an
  envelope with the unknown event type \<open>UnknownEvent\<close> the error counter that is
  incremented is labelled \<open>UnknownEvent\<close>; the counters labelled \<open>unknown\<close> and
  \<open>unparseable\<close> stay at 0.
\<close>

theorem failure_disposition_effects_counterexample:
  "unmarshal_BaseEvent sample_codec (msg_Value (message body_garbage 3))
     = (zero_BaseEvent, Some ''invalid character'')
   \<and> pushes (calls (processMessage sample_codec (calm 5) (message body_garbage 3) fresh_world))
       = [([], body_garbage, ''Failed to parse base event: invalid character'')]
   \<and> MessagesProcessed (processMessage sample_codec (calm 5) (message body_garbage 3) fresh_world)
       = MessagesProcessed fresh_world
   \<and> MessagesProcessed (processMessage sample_codec (calm 5) (message body_unknown 4) fresh_world)
        (''UnknownEvent'', ''error'') = 1
   \<and> MessagesProcessed (processMessage sample_codec (calm 5) (message body_unknown 4) fresh_world)
        (''unknown'', ''error'') = 0
   \<and> MessagesProcessed (processMessage sample_codec (calm 5) (message body_unknown 4) fresh_world)
        (''unparseable'', ''error'') = 0"
proof -
  let ?u = "\<lparr>EventID = ''test-456'', EventType = ''UnknownEvent'', Timestamp = 0\<rparr>"
  have g: "unmarshal_BaseEvent sample_codec (msg_Value (message body_garbage 3))
             = (zero_BaseEvent, Some ''invalid character'')"
    by (simp add: message_fields decode_garbage)
  have u: "unmarshal_BaseEvent sample_codec (msg_Value (message body_unknown 4)) = (?u, None)"
    by (simp add: message_fields decode_unknown)
  have du: "dispatch sample_codec (calm 5) ?u (msg_Value (message body_unknown 4)) fresh_world
              = (Some (''unknown event type: '' @ ''UnknownEvent''), fresh_world)"
    using dispatch_unknown [of ?u] unknown_not_known by simp
  have "pushes (calls (processMessage sample_codec (calm 5) (message body_garbage 3)
                         fresh_world))
          = [([], body_garbage, ''Failed to parse base event: invalid character'')]"
    and "MessagesProcessed (processMessage sample_codec (calm 5) (message body_garbage 3)
                              fresh_world) = MessagesProcessed fresh_world"
    by (simp_all add: processMessage_envelope_failure [OF g] fresh_world_fields message_fields
          zero_BaseEvent_def)
  moreover
  have "MessagesProcessed (processMessage sample_codec (calm 5) (message body_unknown 4)
                             fresh_world) (''UnknownEvent'', ''error'') = 1"
    and "MessagesProcessed (processMessage sample_codec (calm 5) (message body_unknown 4)
                              fresh_world) (''unknown'', ''error'') = 0"
    and "MessagesProcessed (processMessage sample_codec (calm 5) (message body_unknown 4)
                              fresh_world) (''unparseable'', ''error'') = 0"
    by (simp_all add: processMessage_failure [OF u du] fresh_world_fields)
  ultimately show ?thesis
    using g by blast
qed

subsection \<open>The rate gauge\<close>

text \<open>
  C9 (as amended). When a message is processed successfully, the processed counter
  labelled with its event type and \<open>success\<close> is incremented and the rolling count of
  that event type is incremented (from 0 if it had none). When the ticker fires, an
  event type whose count is positive has its gauge set to the count and its count
  reset to 0; an event type whose count is 0 (or that has no count yet) keeps both
  its gauge and its count, so after an interval without successes the gauge still
  shows the last positive sample.
\<close>

theorem rate_gauge_sampling:
  "(unmarshal_BaseEvent cd (msg_Value msg) = (b, None)
      \<and> fst (dispatch cd e b (msg_Value msg) w) = None \<longrightarrow>
      MessagesProcessed (processMessage cd e msg w)
        = (MessagesProcessed w)
            ((EventType b, ''success'') := Suc (MessagesProcessed w (EventType b, ''success'')))
      \<and> processedCount (processMessage cd e msg w)
        = (processedCount w)
            (EventType b := Some ((case processedCount w (EventType b) of
                                     None \<Rightarrow> 0 | Some n \<Rightarrow> n) + 1)))
   \<and> (processedCount w t = Some n \<and> 0 < n \<longrightarrow>
        MessagesProcessedPerSecond (ticker_fire w) t = Some n
        \<and> processedCount (ticker_fire w) t = Some 0)
   \<and> (processedCount w t = Some n \<and> n \<le> 0 \<longrightarrow>
        MessagesProcessedPerSecond (ticker_fire w) t = MessagesProcessedPerSecond w t
        \<and> processedCount (ticker_fire w) t = Some n)
   \<and> (processedCount w t = None \<longrightarrow>
        MessagesProcessedPerSecond (ticker_fire w) t = MessagesProcessedPerSecond w t
        \<and> processedCount (ticker_fire w) t = None)"
proof -
  have success: "MessagesProcessed (processMessage cd e msg w)
        = (MessagesProcessed w)
            ((EventType b, ''success'') := Suc (MessagesProcessed w (EventType b, ''success'')))
      \<and> processedCount (processMessage cd e msg w)
        = (processedCount w)
            (EventType b := Some ((case processedCount w (EventType b) of
                                     None \<Rightarrow> 0 | Some n \<Rightarrow> n) + 1))"
    if base: "unmarshal_BaseEvent cd (msg_Value msg) = (b, None)"
      and f: "fst (dispatch cd e b (msg_Value msg) w) = None"
  proof -
    obtain r d lat g where
      r: "dispatch cd e b (msg_Value msg) w
            = (r, w\<lparr>store := d, DBLatency := lat, calls := calls w @ map GatewayCall g\<rparr>)"
      by (rule dispatch_result)
    with f have "r = None"
      by simp
    with r show ?thesis
      by (simp add: processMessage_success [OF base])
  qed
  have tick: "(processedCount w t = Some n \<and> 0 < n \<longrightarrow>
        MessagesProcessedPerSecond (ticker_fire w) t = Some n
        \<and> processedCount (ticker_fire w) t = Some 0)
   \<and> (processedCount w t = Some n \<and> n \<le> 0 \<longrightarrow>
        MessagesProcessedPerSecond (ticker_fire w) t = MessagesProcessedPerSecond w t
        \<and> processedCount (ticker_fire w) t = Some n)
   \<and> (processedCount w t = None \<longrightarrow>
        MessagesProcessedPerSecond (ticker_fire w) t = MessagesProcessedPerSecond w t
        \<and> processedCount (ticker_fire w) t = None)"
    by (simp add: ticker_fire_def)
  from success tick show ?thesis
    by blast
qed

lemma dispatch_alice_ok:
  assumes "store w = empty_db"
  shows "\<exists>w1. dispatch sample_codec (calm t)
               \<lparr>EventID = ''evt-1'', EventType = UserCreatedEvent, Timestamp = 100\<rparr>
               (msg_Value (message body_alice off)) w = (None, w1)
             \<and> MessagesProcessed w1 = MessagesProcessed w
             \<and> MessagesProcessedPerSecond w1 = MessagesProcessedPerSecond w
             \<and> processedCount w1 = processedCount w"
proof -
  let ?a = "\<lparr>EventID = ''evt-1'', EventType = UserCreatedEvent, Timestamp = 100\<rparr>"
  obtain r d lat g where
    r: "dispatch sample_codec (calm t) ?a (msg_Value (message body_alice off)) w
          = (r, w\<lparr>store := d, DBLatency := lat, calls := calls w @ map GatewayCall g\<rparr>)"
    by (rule dispatch_result)
  have "fst (dispatch sample_codec (calm t) ?a (msg_Value (message body_alice off)) w) = None"
    by (simp add: message_fields dispatch_alice alice_accepted [OF assms])
  with r have "r = None"
    by simp
  with r show ?thesis
    by simp
qed

lemma alice_processed:
  assumes "store w = empty_db"
  shows "processedCount (processMessage sample_codec (calm t) (message body_alice off) w)
           = (processedCount w)
               (UserCreatedEvent := Some ((case processedCount w UserCreatedEvent of
                                             None \<Rightarrow> 0 | Some n \<Rightarrow> n) + 1))
         \<and> MessagesProcessedPerSecond
             (processMessage sample_codec (calm t) (message body_alice off) w)
           = MessagesProcessedPerSecond w"
proof -
  let ?a = "\<lparr>EventID = ''evt-1'', EventType = UserCreatedEvent, Timestamp = 100\<rparr>"
  have a: "unmarshal_BaseEvent sample_codec (msg_Value (message body_alice off)) = (?a, None)"
    by (simp add: message_fields decode_alice)
  from dispatch_alice_ok [OF assms, of t off] obtain w1 where
    d: "dispatch sample_codec (calm t) ?a (msg_Value (message body_alice off)) w = (None, w1)"
    and "MessagesProcessedPerSecond w1 = MessagesProcessedPerSecond w"
    and "processedCount w1 = processedCount w"
    by blast
  then show ?thesis
    by (simp add: processMessage_success [OF a d])
qed

theorem rate_gauge_sampling_witness:
  "MessagesProcessed (processMessage sample_codec (calm 110) (message body_alice 0) fresh_world)
     (UserCreatedEvent, ''success'') = 1
   \<and> processedCount (processMessage sample_codec (calm 110) (message body_alice 0) fresh_world)
       UserCreatedEvent = Some 1
   \<and> MessagesProcessedPerSecond
        (ticker_fire (processMessage sample_codec (calm 110) (message body_alice 0) fresh_world))
        UserCreatedEvent = Some 1
   \<and> processedCount
        (ticker_fire (processMessage sample_codec (calm 110) (message body_alice 0) fresh_world))
        UserCreatedEvent = Some 0
   \<and> MessagesProcessedPerSecond (ticker_fire fresh_world) UserCreatedEvent = None"
proof -
  let ?a = "\<lparr>EventID = ''evt-1'', EventType = UserCreatedEvent, Timestamp = 100\<rparr>"
  let ?w = "processMessage sample_codec (calm 110) (message body_alice 0) fresh_world"
  have a: "unmarshal_BaseEvent sample_codec (msg_Value (message body_alice 0)) = (?a, None)"
    by (simp add: message_fields decode_alice)
  have ok: "fst (dispatch sample_codec (calm 110) ?a (msg_Value (message body_alice 0))
                   fresh_world) = None"
    by (simp add: message_fields dispatch_alice alice_accepted fresh_world_fields)
  from rate_gauge_sampling [of sample_codec "message body_alice 0" ?a "calm 110" fresh_world]
       a ok
  have s: "MessagesProcessed ?w (UserCreatedEvent, ''success'') = 1"
    and c: "processedCount ?w UserCreatedEvent = Some 1"
    by (simp_all add: fresh_world_fields)
  from rate_gauge_sampling [of _ _ _ _ ?w UserCreatedEvent 1] c
  have t: "MessagesProcessedPerSecond (ticker_fire ?w) UserCreatedEvent = Some 1"
    and z: "processedCount (ticker_fire ?w) UserCreatedEvent = Some 0"
    by simp_all
  from rate_gauge_sampling [of _ _ _ _ fresh_world UserCreatedEvent]
  have n: "MessagesProcessedPerSecond (ticker_fire fresh_world) UserCreatedEvent = None"
    by (simp add: fresh_world_fields)
  from s c t z n show ?thesis
    by blast
qed

text \<open>
  C9 as stated fails. One \<open>UserCreated\<close> event is processed, the ticker fires (the gauge
  reads 1, the count is back to 0), and the ticker fires again after an interval
  without any success: the gauge still reads 1, not 0.
\<close>

theorem rate_gauge_sampling_counterexample:
  "MessagesProcessedPerSecond
     (Start sample_codec [ReadMessage (calm 110) (message body_alice 0), TickerFires]
        fresh_world) UserCreatedEvent = Some 1
   \<and> processedCount
     (Start sample_codec [ReadMessage (calm 110) (message body_alice 0), TickerFires]
        fresh_world) UserCreatedEvent = Some 0
   \<and> MessagesProcessedPerSecond
     (Start sample_codec
        [ReadMessage (calm 110) (message body_alice 0), TickerFires, TickerFires]
        fresh_world) UserCreatedEvent = Some 1"
proof -
  let ?w0 = "fresh_world\<lparr>processedCount := (\<lambda>_. None)\<rparr>"
  let ?w1 = "processMessage sample_codec (calm 110) (message body_alice 0) ?w0"
  have "store ?w0 = empty_db"
    by (simp add: fresh_world_fields)
  from alice_processed [OF this, of 110 0]
  have c: "processedCount ?w1 UserCreatedEvent = Some 1"
    and g: "MessagesProcessedPerSecond ?w1 UserCreatedEvent = None"
    by (simp_all add: fresh_world_fields)
  have t1: "MessagesProcessedPerSecond (ticker_fire ?w1) UserCreatedEvent = Some 1"
    and c1: "processedCount (ticker_fire ?w1) UserCreatedEvent = Some 0"
    using c by (simp_all add: ticker_fire_def)
  have t2: "MessagesProcessedPerSecond (ticker_fire (ticker_fire ?w1)) UserCreatedEvent = Some 1"
    using t1 c1 by (simp add: ticker_fire_def [of "ticker_fire ?w1"])
  from t1 c1 t2 show ?thesis
    by (simp add: Start_def)
qed

end
